theory Spec2Isabelle
  imports Complex_Main "HOL-Library.Log_Nat" "HOL-Library.Word"
begin

section \<open>Numbers\<close>

text \<open>
  The monitor works with Python integers and Python floats. Integers are modelled as
  \<^typ>\<open>int\<close>. A float is an IEEE 754 double: a finite value (carried as the rational it
  denotes, so the two zeros are one value), an infinity or a NaN.
\<close>

datatype pyfloat = Fin rat | PInf | NInf | NaN

text \<open>Rounding to the nearest integer, a tie going to the even neighbour.\<close>

definition round_half_even :: "rat \<Rightarrow> int" where
  "round_half_even y =
     (let f = \<lfloor>y\<rfloor>; r = y - of_int f
      in if r < 1 / 2 then f
         else if 1 / 2 < r then f + 1
         else if even f then f
         else f + 1)"

text \<open>
  The double nearest to a rational. \<open>binary_exponent x\<close> is the \<open>e\<close> with
  \<open>2 ^ e \<le> \<bar>x\<bar> < 2 ^ (e + 1)\<close>, found from the bit lengths of numerator and
  denominator. A double has 53 significant bits, so its last place is worth
  \<open>2 ^ (e - 52)\<close>, and never less than \<open>2 ^ (- 1074)\<close> (the subnormal range). A result
  of magnitude \<open>2 ^ 1024\<close> or more is an overflow.
\<close>

definition binary_exponent :: "rat \<Rightarrow> int" where
  "binary_exponent x =
     (let (p, q) = quotient_of \<bar>x\<bar>;
          d = bitlen p - bitlen q
      in if 2 powi d \<le> \<bar>x\<bar> then d else d - 1)"

definition fl64 :: "rat \<Rightarrow> rat" where
  "fl64 x =
     (if x = 0 then 0
      else let u = 2 powi (max (binary_exponent x - 52) (- 1074))
           in of_int (round_half_even (x / u)) * u)"

definition to_float :: "rat \<Rightarrow> pyfloat" where
  "to_float x =
     (let r = fl64 x
      in if of_int (2 ^ 1024) \<le> r then PInf
         else if r \<le> - of_int (2 ^ 1024) then NInf
         else Fin r)"

text \<open>
  The exceptions that the modelled code can meet: a division by zero, a value too large
  for a float, \<^verbatim>\<open>min\<close> or \<^verbatim>\<open>max\<close> of an empty sequence, and whatever the chart and
  document libraries raise. A computation returns \<open>Inl\<close> the exception or \<open>Inr\<close> its
  value.
\<close>

datatype py_error = ZeroDivisionError | OverflowError | ValueError | LibraryError string

definition bind :: "py_error + 'a \<Rightarrow> ('a \<Rightarrow> py_error + 'b) \<Rightarrow> py_error + 'b" where
  "bind m f = (case m of Inl e \<Rightarrow> Inl e | Inr v \<Rightarrow> f v)"

text \<open>
  The operator \<^verbatim>\<open>/\<close> on Python numbers. An integer operand of a float division is first
  converted to the nearest double (\<^verbatim>\<open>OverflowError\<close> when there is none); a finite
  quotient is rounded to the nearest double and may overflow to an infinity; a zero
  divisor raises. The quotient of two integers is rounded once.
\<close>

datatype number = PyInt int | PyFloat pyfloat

definition int_to_float :: "int \<Rightarrow> py_error + pyfloat" where
  "int_to_float c = (case to_float (of_int c) of Fin r \<Rightarrow> Inr (Fin r) | _ \<Rightarrow> Inl OverflowError)"

definition float_truediv :: "pyfloat \<Rightarrow> pyfloat \<Rightarrow> py_error + pyfloat" where
  "float_truediv a b =
     (case b of
        Fin y \<Rightarrow>
          if y = 0 then Inl ZeroDivisionError
          else (case a of
                  Fin x \<Rightarrow> Inr (to_float (x / y))
                | PInf \<Rightarrow> Inr (if 0 < y then PInf else NInf)
                | NInf \<Rightarrow> Inr (if 0 < y then NInf else PInf)
                | NaN \<Rightarrow> Inr NaN)
      | NaN \<Rightarrow> Inr NaN
      | _ \<Rightarrow> (case a of Fin x \<Rightarrow> Inr (Fin 0) | _ \<Rightarrow> Inr NaN))"

fun py_truediv :: "number \<Rightarrow> number \<Rightarrow> py_error + pyfloat" where
  "py_truediv (PyInt a) (PyInt b) =
     (if b = 0 then Inl ZeroDivisionError
      else (case to_float (of_int a / of_int b) of
              Fin r \<Rightarrow> Inr (Fin r)
            | _ \<Rightarrow> Inl OverflowError))"
| "py_truediv (PyInt a) (PyFloat y) = bind (int_to_float a) (\<lambda>x. float_truediv x y)"
| "py_truediv (PyFloat x) (PyInt b) = bind (int_to_float b) (\<lambda>y. float_truediv x y)"
| "py_truediv (PyFloat x) (PyFloat y) = float_truediv x y"

text \<open>
  \<^verbatim>\<open>round(x, ndigits)\<close> of a finite float: the decimal with \<open>ndigits\<close> places nearest to
  the exact value of \<open>x\<close> (\<open>py_round\<close>, a tie going to the even neighbour), converted
  back to the nearest double, \<^verbatim>\<open>OverflowError\<close> when that is out of range. Infinities
  and NaN are returned as they are.
\<close>

definition py_round :: "rat \<Rightarrow> nat \<Rightarrow> rat" where
  "py_round x ndigits = of_int (round_half_even (x * 10 ^ ndigits)) / 10 ^ ndigits"

definition round_float :: "pyfloat \<Rightarrow> nat \<Rightarrow> py_error + pyfloat" where
  "round_float x ndigits =
     (case x of
        Fin r \<Rightarrow> (case to_float (py_round r ndigits) of
                    Fin s \<Rightarrow> Inr (Fin s)
                  | _ \<Rightarrow> Inl OverflowError)
      | _ \<Rightarrow> Inr x)"

text \<open>
  Comparison of a float with a finite number (the code compares with the integers 0 and
  300 only). Every comparison with NaN is false.
\<close>

definition float_gt :: "pyfloat \<Rightarrow> rat \<Rightarrow> bool" where
  "float_gt x c = (case x of Fin r \<Rightarrow> c < r | PInf \<Rightarrow> True | _ \<Rightarrow> False)"

definition float_lt :: "pyfloat \<Rightarrow> rat \<Rightarrow> bool" where
  "float_lt x c = (case x of Fin r \<Rightarrow> r < c | NInf \<Rightarrow> True | _ \<Rightarrow> False)"

definition float_ge :: "pyfloat \<Rightarrow> rat \<Rightarrow> bool" where
  "float_ge x c = (case x of Fin r \<Rightarrow> c \<le> r | PInf \<Rightarrow> True | _ \<Rightarrow> False)"

definition float_le :: "pyfloat \<Rightarrow> rat \<Rightarrow> bool" where
  "float_le x c = (case x of Fin r \<Rightarrow> r \<le> c | NInf \<Rightarrow> True | _ \<Rightarrow> False)"

text \<open>
  The report generator only sums, compares and averages the values it finds in the
  recorded samples; its arithmetic is kept exact, on the rationals that finite floats
  denote, with the division raising on a zero divisor.
\<close>

definition truediv :: "rat \<Rightarrow> rat \<Rightarrow> py_error + rat" where
  "truediv a b = (if b = 0 then Inl ZeroDivisionError else Inr (a / b))"

section \<open>monitor.py: the rate state of SystemMonitor\<close>

text \<open>
  \<^verbatim>\<open>psutil.disk_io_counters()\<close> and \<^verbatim>\<open>psutil.net_io_counters()\<close> return named tuples of
  cumulative counters; only the attributes that the monitor reads are kept.

  Modelled from the spec: psutil is not part of the repository, and the width of its
  counters is taken from section 4.2 (`64-bit counters'): a counter is a 64-bit word,
  which the code reads as the non-negative integer \<open>uint\<close> of it.
\<close>

record disk_io_counters =
  read_bytes :: "64 word"
  write_bytes :: "64 word"

record net_io_counters =
  bytes_sent :: "64 word"
  bytes_recv :: "64 word"
  packets_sent :: "64 word"
  packets_recv :: "64 word"

text \<open>
  The attributes that \<^verbatim>\<open>SystemMonitor.__init__\<close> sets: the previous network counters, the
  previous disk counters and the previous reading of \<^verbatim>\<open>time.time()\<close>, a finite float.
\<close>

record SystemMonitor =
  last_net_io :: net_io_counters
  last_disk_io :: disk_io_counters
  last_time :: rat

text \<open>One entry of the \<^verbatim>\<open>partitions\<close> list built by \<^verbatim>\<open>get_disk_info\<close>.\<close>

record partition =
  device :: string
  mountpoint :: string
  fstype :: string
  part_percent :: rat
  total_gb :: rat
  used_gb :: rat
  free_gb :: rat

text \<open>
  The \<^verbatim>\<open>'io'\<close> dictionary and the dictionary returned by \<^verbatim>\<open>get_disk_info\<close>. The type
  \<open>'f\<close> is that of the rates: \<^typ>\<open>pyfloat\<close> where the monitor computes them,
  \<^typ>\<open>rat\<close> in the recorded samples that the report generator reads.
\<close>

record 'f disk_io =
  io_read_bytes :: "64 word"
  io_write_bytes :: "64 word"
  read_speed :: 'f
  write_speed :: 'f

record 'f disk_info =
  partitions :: "partition list"
  io :: "'f disk_io"

text \<open>One entry of the \<^verbatim>\<open>interfaces\<close> list and the dictionary returned by
  \<^verbatim>\<open>get_network_info\<close>.\<close>

record interface =
  name :: string
  ip :: "string option"
  speed :: int
  is_up :: bool

record 'f network_info =
  net_bytes_sent :: "64 word"
  net_bytes_recv :: "64 word"
  net_packets_sent :: "64 word"
  net_packets_recv :: "64 word"
  bytes_sent_speed :: 'f
  bytes_recv_speed :: 'f
  bytes_sent_speed_mb :: 'f
  bytes_recv_speed_mb :: 'f
  interfaces :: "interface list"

text \<open>
  \<^verbatim>\<open>get_disk_info\<close>, lines 154 to 175. The operating system's answers are arguments: the
  partition list already collected by the loop over \<^verbatim>\<open>psutil.disk_partitions()\<close>, the
  reading of \<^verbatim>\<open>time.time()\<close> and the reading of \<^verbatim>\<open>psutil.disk_io_counters()\<close>. In the
  branch \<open>time_diff > 0\<close> the two speeds are floats, in the other the integer 0. The
  result is the returned dictionary together with the monitor after the call.
\<close>

definition get_disk_info ::
  "SystemMonitor \<Rightarrow> partition list \<Rightarrow> rat \<Rightarrow> disk_io_counters \<Rightarrow>
   py_error + (pyfloat disk_info \<times> SystemMonitor)"
where
  "get_disk_info self parts current_time current_disk_io =
     (let time_diff = to_float (current_time - last_time self)
      in bind (if float_gt time_diff 0
               then bind (py_truediv (PyInt (uint (read_bytes current_disk_io)
                                             - uint (read_bytes (last_disk_io self))))
                            (PyFloat time_diff))
                      (\<lambda>rd. bind (py_truediv (PyInt (uint (write_bytes current_disk_io)
                                                     - uint (write_bytes (last_disk_io self))))
                                    (PyFloat time_diff))
                      (\<lambda>wr. Inr (PyFloat rd, PyFloat wr)))
               else Inr (PyInt 0, PyInt 0))
           (\<lambda>(rd, wr).
              bind (py_truediv rd (PyInt (1024 ^ 2)))
              (\<lambda>rs. bind (round_float rs 2)
              (\<lambda>rr. bind (py_truediv wr (PyInt (1024 ^ 2)))
              (\<lambda>ws. bind (round_float ws 2)
              (\<lambda>wrr. Inr (\<lparr>partitions = parts,
                            io = \<lparr>io_read_bytes = read_bytes current_disk_io,
                                   io_write_bytes = write_bytes current_disk_io,
                                   read_speed = rr,
                                   write_speed = wrr\<rparr>\<rparr>,
                           self\<lparr>last_disk_io := current_disk_io\<rparr>)))))))"

text \<open>
  \<^verbatim>\<open>get_network_info\<close>, lines 179 to 224, with the readings of \<^verbatim>\<open>time.time()\<close> and
  \<^verbatim>\<open>psutil.net_io_counters()\<close> and the list of interfaces that are up as arguments.
\<close>

definition get_network_info ::
  "SystemMonitor \<Rightarrow> rat \<Rightarrow> net_io_counters \<Rightarrow> interface list \<Rightarrow>
   py_error + (pyfloat network_info \<times> SystemMonitor)"
where
  "get_network_info self current_time current_net_io ifs =
     (let time_diff = to_float (current_time - last_time self)
      in bind (if float_gt time_diff 0
               then bind (py_truediv (PyInt (uint (bytes_sent current_net_io)
                                             - uint (bytes_sent (last_net_io self))))
                            (PyFloat time_diff))
                      (\<lambda>sent. bind (py_truediv (PyInt (uint (bytes_recv current_net_io)
                                                       - uint (bytes_recv (last_net_io self))))
                                      (PyFloat time_diff))
                      (\<lambda>recv. Inr (PyFloat sent, PyFloat recv)))
               else Inr (PyInt 0, PyInt 0))
           (\<lambda>(sent, recv).
              bind (py_truediv sent (PyInt 1024))
              (\<lambda>sk. bind (round_float sk 2)
              (\<lambda>skr. bind (py_truediv recv (PyInt 1024))
              (\<lambda>rk. bind (round_float rk 2)
              (\<lambda>rkr. bind (py_truediv sent (PyInt (1024 ^ 2)))
              (\<lambda>sm. bind (round_float sm 2)
              (\<lambda>smr. bind (py_truediv recv (PyInt (1024 ^ 2)))
              (\<lambda>rm. bind (round_float rm 2)
              (\<lambda>rmr. Inr (\<lparr>net_bytes_sent = bytes_sent current_net_io,
                             net_bytes_recv = bytes_recv current_net_io,
                             net_packets_sent = packets_sent current_net_io,
                             net_packets_recv = packets_recv current_net_io,
                             bytes_sent_speed = skr,
                             bytes_recv_speed = rkr,
                             bytes_sent_speed_mb = smr,
                             bytes_recv_speed_mb = rmr,
                             interfaces = ifs\<rparr>,
                            self\<lparr>last_net_io := current_net_io,
                                 last_time := current_time\<rparr>)))))))))))"

text \<open>
  The other parts of a sample, reduced to the keys that the report generator reads. A CPU
  temperature that \<^verbatim>\<open>_get_cpu_temperature\<close> could not read is \<^verbatim>\<open>None\<close>. In a GPU entry
  \<open>None\<close> stands for a key that \<^verbatim>\<open>dict.get\<close> does not find (for the temperature also for
  the value \<^verbatim>\<open>None\<close>: the generator treats both alike).
\<close>

record system_info =
  platform :: string
  platform_release :: string
  hostname :: string
  processor :: string

record cpu_info =
  cpu_percent :: rat
  cpu_temperature :: "rat option"

record memory_info =
  mem_percent :: rat

record gpu_entry =
  load :: "rat option"
  memory_percent :: "rat option"
  gpu_temperature :: "rat option"

record gpu_info =
  available :: bool
  gpus :: "gpu_entry list"

text \<open>
  The dictionary returned by \<^verbatim>\<open>get_all_resources\<close>. The generator tests the presence of
  each top-level key (\<^verbatim>\<open>if 'cpu' in d\<close>, \<^verbatim>\<open>d.get('gpu', {})\<close>), so each part is optional.
\<close>

record 'f sample =
  timestamp :: string
  system :: "system_info option"
  cpu :: "cpu_info option"
  gpu :: "gpu_info option"
  memory :: "memory_info option"
  disk :: "'f disk_info option"
  network :: "'f network_info option"

text \<open>Everything one call of \<^verbatim>\<open>get_all_resources\<close> reads from the operating system.\<close>

record os_readings =
  r_timestamp :: string
  r_system :: system_info
  r_cpu :: cpu_info
  r_gpu :: gpu_info
  r_memory :: memory_info
  r_partitions :: "partition list"
  r_disk_time :: rat
  r_disk_io :: disk_io_counters
  r_net_time :: rat
  r_net_io :: net_io_counters
  r_interfaces :: "interface list"

text \<open>
  \<^verbatim>\<open>get_all_resources\<close>: the dictionary display evaluates its values in order, so
  \<^verbatim>\<open>get_disk_info\<close> runs before \<^verbatim>\<open>get_network_info\<close>, on the same monitor.
\<close>

definition get_all_resources ::
  "SystemMonitor \<Rightarrow> os_readings \<Rightarrow> py_error + (pyfloat sample \<times> SystemMonitor)"
where
  "get_all_resources self r =
     bind (get_disk_info self (r_partitions r) (r_disk_time r) (r_disk_io r))
       (\<lambda>(d, self1). bind (get_network_info self1 (r_net_time r) (r_net_io r) (r_interfaces r))
       (\<lambda>(n, self2).
          Inr (\<lparr>timestamp = r_timestamp r,
                system = Some (r_system r),
                cpu = Some (r_cpu r),
                gpu = Some (r_gpu r),
                memory = Some (r_memory r),
                disk = Some d,
                network = Some n\<rparr>,
               self2)))"

section \<open>pdf\_generator.py: statistics and the report\<close>

record statistics =
  avg :: rat
  min_val :: rat
  max_val :: rat

text \<open>
  \<^verbatim>\<open>min\<close> and \<^verbatim>\<open>max\<close> of a list raise \<^verbatim>\<open>ValueError\<close> on the empty list.
\<close>

definition py_min :: "rat list \<Rightarrow> py_error + rat" where
  "py_min data_list = (case data_list of [] \<Rightarrow> Inl ValueError | x # xs \<Rightarrow> Inr (fold min xs x))"

definition py_max :: "rat list \<Rightarrow> py_error + rat" where
  "py_max data_list = (case data_list of [] \<Rightarrow> Inl ValueError | x # xs \<Rightarrow> Inr (fold max xs x))"

text \<open>
  \<^verbatim>\<open>_calculate_statistics\<close>: the empty list is answered before \<^verbatim>\<open>sum\<close>, \<^verbatim>\<open>min\<close> and
  \<^verbatim>\<open>max\<close> are reached.
\<close>

definition calculate_statistics :: "rat list \<Rightarrow> py_error + statistics" where
  "calculate_statistics data_list =
     (if data_list = [] then Inr \<lparr>avg = 0, min_val = 0, max_val = 0\<rparr>
      else bind (truediv (sum_list data_list) (of_nat (length data_list)))
             (\<lambda>a. bind (py_min data_list)
             (\<lambda>lo. bind (py_max data_list)
             (\<lambda>hi. Inr \<lparr>avg = py_round a 2,
                         min_val = py_round lo 2,
                         max_val = py_round hi 2\<rparr>))))"

text \<open>The list comprehensions of lines 205 to 212 and 225.\<close>

definition cpu_data :: "rat sample list \<Rightarrow> rat list" where
  "cpu_data recorded = List.map_filter (\<lambda>d. map_option cpu_percent (cpu d)) recorded"

definition memory_data :: "rat sample list \<Rightarrow> rat list" where
  "memory_data recorded = List.map_filter (\<lambda>d. map_option mem_percent (memory d)) recorded"

definition network_sent :: "rat sample list \<Rightarrow> rat list" where
  "network_sent recorded = List.map_filter (\<lambda>d. map_option bytes_sent_speed (network d)) recorded"

definition network_recv :: "rat sample list \<Rightarrow> rat list" where
  "network_recv recorded = List.map_filter (\<lambda>d. map_option bytes_recv_speed (network d)) recorded"

definition disk_read :: "rat sample list \<Rightarrow> rat list" where
  "disk_read recorded = List.map_filter (\<lambda>d. map_option (\<lambda>i. read_speed (io i)) (disk d)) recorded"

definition disk_write :: "rat sample list \<Rightarrow> rat list" where
  "disk_write recorded = List.map_filter (\<lambda>d. map_option (\<lambda>i. write_speed (io i)) (disk d)) recorded"

text \<open>\<^verbatim>\<open>d['cpu'].get('temperature', 0) or 0\<close>: a missing reading becomes the number 0.\<close>

definition or_zero :: "rat option \<Rightarrow> rat" where
  "or_zero v = (case v of None \<Rightarrow> 0 | Some t \<Rightarrow> t)"

definition cpu_temp_data :: "rat sample list \<Rightarrow> rat list" where
  "cpu_temp_data recorded =
     List.map_filter (\<lambda>d. map_option (\<lambda>c. or_zero (cpu_temperature c)) (cpu d)) recorded"

text \<open>
  Lines 214 to 223. The outer test looks at the first sample only:
  \<^verbatim>\<open>recorded_data and recorded_data[0].get('gpu', {}).get('available')\<close>. The inner test
  \<^verbatim>\<open>d.get('gpu', {}).get('gpus')\<close> holds for a non-empty list, whose element 0 is then used.
\<close>

definition gpu_gate :: "rat sample list \<Rightarrow> bool" where
  "gpu_gate recorded =
     (case recorded of
        [] \<Rightarrow> False
      | d # _ \<Rightarrow> (case gpu d of None \<Rightarrow> False | Some g \<Rightarrow> available g))"

definition first_gpu :: "rat sample \<Rightarrow> gpu_entry option" where
  "first_gpu d =
     (case gpu d of
        None \<Rightarrow> None
      | Some g \<Rightarrow> (case gpus g of [] \<Rightarrow> None | e # _ \<Rightarrow> Some e))"

definition gpu_load :: "rat sample list \<Rightarrow> rat list" where
  "gpu_load recorded =
     (if gpu_gate recorded
      then List.map_filter (\<lambda>d. map_option (\<lambda>e. or_zero (load e)) (first_gpu d)) recorded
      else [])"

definition gpu_temp :: "rat sample list \<Rightarrow> rat list" where
  "gpu_temp recorded =
     (if gpu_gate recorded
      then List.map_filter (\<lambda>d. map_option (\<lambda>e. or_zero (gpu_temperature e)) (first_gpu d)) recorded
      else [])"

definition gpu_memory :: "rat sample list \<Rightarrow> rat list" where
  "gpu_memory recorded =
     (if gpu_gate recorded
      then List.map_filter (\<lambda>d. map_option (\<lambda>e. or_zero (memory_percent e)) (first_gpu d)) recorded
      else [])"

text \<open>
  What \<^verbatim>\<open>generate_report\<close> hands to the rendering libraries: the information table, one
  chart (its series) and one statistics table per section, and the partitions of the last
  sample. The GPU section exists only under \<^verbatim>\<open>if gpu_load:\<close>.
\<close>

record gpu_section =
  gpu_chart :: "rat list \<times> rat list \<times> rat list"
  gpu_load_stats :: statistics
  gpu_mem_stats :: statistics
  gpu_temp_stats :: statistics

record report =
  report_start :: string
  report_end :: string
  total_samples :: nat
  report_system :: "(string \<times> string \<times> string) option"
  cpu_chart :: "rat list \<times> rat list"
  cpu_stats :: statistics
  mem_stats :: statistics
  gpu_part :: "gpu_section option"
  net_chart :: "rat list \<times> rat list"
  net_sent_stats :: statistics
  net_recv_stats :: statistics
  disk_chart :: "rat list \<times> rat list"
  disk_read_stats :: statistics
  disk_write_stats :: statistics
  partition_rows :: "partition list option"

definition gpu_story :: "rat sample list \<Rightarrow> py_error + gpu_section option" where
  "gpu_story recorded =
     (if gpu_load recorded = [] then Inr None
      else bind (calculate_statistics (gpu_load recorded))
             (\<lambda>ls. bind (calculate_statistics (gpu_temp recorded))
             (\<lambda>ts. bind (calculate_statistics (gpu_memory recorded))
             (\<lambda>ms. Inr (Some \<lparr>gpu_chart = (gpu_load recorded, gpu_memory recorded,
                                              gpu_temp recorded),
                               gpu_load_stats = ls,
                               gpu_mem_stats = ms,
                               gpu_temp_stats = ts\<rparr>)))))"

definition build_story :: "rat sample list \<Rightarrow> string \<Rightarrow> string \<Rightarrow> py_error + report" where
  "build_story recorded start_time end_time =
     bind (calculate_statistics (cpu_data recorded))
       (\<lambda>cs. bind (calculate_statistics (memory_data recorded))
       (\<lambda>ms. bind (gpu_story recorded)
       (\<lambda>gs. bind (calculate_statistics (network_sent recorded))
       (\<lambda>nss. bind (calculate_statistics (network_recv recorded))
       (\<lambda>nrs. bind (calculate_statistics (disk_read recorded))
       (\<lambda>drs. bind (calculate_statistics (disk_write recorded))
       (\<lambda>dws.
          Inr \<lparr>report_start = start_time,
               report_end = end_time,
               total_samples = length recorded,
               report_system =
                 (case recorded of
                    [] \<Rightarrow> None
                  | d # _ \<Rightarrow> map_option
                      (\<lambda>s. (platform s @ '' '' @ platform_release s, hostname s,
                            take 50 (processor s)))
                      (system d)),
               cpu_chart = (cpu_data recorded, memory_data recorded),
               cpu_stats = cs,
               mem_stats = ms,
               gpu_part = gs,
               net_chart = (network_sent recorded, network_recv recorded),
               net_sent_stats = nss,
               net_recv_stats = nrs,
               disk_chart = (disk_read recorded, disk_write recorded),
               disk_read_stats = drs,
               disk_write_stats = dws,
               partition_rows =
                 (if recorded = [] then None
                  else map_option partitions (disk (last recorded)))\<rparr>)))))))"

text \<open>
  \<^verbatim>\<open>PDFReportGenerator.generate_report\<close>. The chart and document libraries are outside the
  repository: \<open>render\<close> says whether they raise on a story (\<open>Some\<close> the exception) or
  write the document (\<open>None\<close>). The method tests nothing about the length of the buffer.
\<close>

definition PDF_generate_report ::
  "(report \<Rightarrow> py_error option) \<Rightarrow> rat sample list \<Rightarrow> string \<Rightarrow> string \<Rightarrow> py_error + report"
where
  "PDF_generate_report render recorded start_time end_time =
     bind (build_story recorded start_time end_time)
       (\<lambda>story. case render story of Some e \<Rightarrow> Inl e | None \<Rightarrow> Inr story)"

text \<open>A rendering backend that always writes the document.\<close>

definition render_ok :: "report \<Rightarrow> py_error option" where
  "render_ok story = None"

section \<open>app.py: the recording session\<close>

text \<open>
  The module's global variables. \<open>recording_start_time\<close> holds the reading of
  \<^verbatim>\<open>datetime.now()\<close>; \<open>threads_started\<close> counts the calls of \<^verbatim>\<open>Thread.start()\<close>, the
  only trace that \<open>recording_thread\<close> leaves.
\<close>

record app =
  recording :: bool
  recorded_data :: "rat sample list"
  recording_start_time :: "rat option"
  threads_started :: nat

definition RECORDING_DURATION :: int where
  "RECORDING_DURATION = 300"

text \<open>
  The JSON bodies that the routes return. \<open>Bad_request\<close> carries the \<^verbatim>\<open>'error'\<close> text
  sent with status 400, \<open>Server_error\<close> the exception whose text is sent with status 500,
  \<open>Success\<close> the path of the report and the number of samples.
\<close>

datatype response =
  Already_recording
| Started rat int
| Not_recording
| Stopped nat
| Bad_request string
| Server_error py_error
| Success string nat

definition start_recording :: "app \<Rightarrow> rat \<Rightarrow> response \<times> app" where
  "start_recording g now =
     (if recording g then (Already_recording, g)
      else (Started now RECORDING_DURATION,
            g\<lparr>recording := True,
              recorded_data := [],
              recording_start_time := Some now,
              threads_started := Suc (threads_started g)\<rparr>))"

definition stop_recording :: "app \<Rightarrow> response \<times> app" where
  "stop_recording g =
     (if \<not> recording g then (Not_recording, g)
      else (Stopped (length (recorded_data g)), g\<lparr>recording := False\<rparr>))"

text \<open>
  The route \<^verbatim>\<open>generate_report\<close>: the length test comes first, and any exception of the
  generator becomes a response with status 500.
\<close>

definition generate_report :: "(report \<Rightarrow> py_error option) \<Rightarrow> app \<Rightarrow> string \<Rightarrow> response" where
  "generate_report render g report_path =
     (if length (recorded_data g) < 2 then Bad_request ''Not enough data to generate report''
      else (case PDF_generate_report render (recorded_data g)
                   (timestamp (recorded_data g ! 0)) (timestamp (last (recorded_data g))) of
              Inl e \<Rightarrow> Server_error e
            | Inr story \<Rightarrow> Success report_path (length (recorded_data g))))"

text \<open>
  \<^verbatim>\<open>recording_worker\<close>, seen from the worker thread alone. \<open>clock 0\<close> is the reading
  \<^verbatim>\<open>start = time.time()\<close> and \<open>clock k\<close>, for \<open>k \<ge> 1\<close>, the reading taken by the \<open>k\<close>-th
  evaluation of the loop condition; \<open>samples k\<close> is the result of \<^verbatim>\<open>get_all_resources\<close>
  in the \<open>k\<close>-th round, \<open>None\<close> when it raised and the exception was printed. The
  readings are finite floats, their difference is a float subtraction, and the float is
  compared with the integer 300. The loop is not known to end (the clock is an input), so
  not returning is the value \<open>None\<close>.
\<close>

partial_function (option) recording_loop ::
  "(nat \<Rightarrow> rat) \<Rightarrow> (nat \<Rightarrow> rat sample option) \<Rightarrow> rat \<Rightarrow> nat \<Rightarrow> app \<Rightarrow> app option"
where
  "recording_loop clock samples start k g =
     (if recording g \<and> float_lt (to_float (clock k - start)) (of_int RECORDING_DURATION)
      then recording_loop clock samples start (Suc k)
             (case samples k of
                Some d \<Rightarrow> g\<lparr>recorded_data := recorded_data g @ [d]\<rparr>
              | None \<Rightarrow> g)
      else Some (g\<lparr>recording := False\<rparr>))"

definition recording_worker :: "(nat \<Rightarrow> rat) \<Rightarrow> (nat \<Rightarrow> rat sample option) \<Rightarrow> app \<Rightarrow> app option" where
  "recording_worker clock samples g = recording_loop clock samples (clock 0) 1 g"

section \<open>Concrete inputs\<close>

text \<open>A monitor whose previous sample was taken at second 10.\<close>

definition monitor0 :: SystemMonitor where
  "monitor0 =
     \<lparr>last_net_io = \<lparr>bytes_sent = 4096, bytes_recv = 8192, packets_sent = 4, packets_recv = 8\<rparr>,
      last_disk_io = \<lparr>read_bytes = 2097152, write_bytes = 4194304\<rparr>,
      last_time = 10\<rparr>"

text \<open>
  A sample as \<^verbatim>\<open>get_all_resources\<close> builds it, with a given GPU part and everything else
  fixed, and two GPU entries that differ in whether the temperature was read.
\<close>

definition sample_with_gpu :: "bool \<Rightarrow> gpu_entry list \<Rightarrow> rat sample" where
  "sample_with_gpu av gs =
     \<lparr>timestamp = ''2024-01-01 10:00:00'',
      system = Some \<lparr>platform = ''Linux'', platform_release = ''6.1'', hostname = ''host'',
                     processor = ''x86_64''\<rparr>,
      cpu = Some \<lparr>cpu_percent = 10, cpu_temperature = None\<rparr>,
      gpu = Some \<lparr>available = av, gpus = gs\<rparr>,
      memory = Some \<lparr>mem_percent = 50\<rparr>,
      disk = Some \<lparr>partitions = [],
                   io = \<lparr>io_read_bytes = 0, io_write_bytes = 0, read_speed = 0,
                          write_speed = 0\<rparr>\<rparr>,
      network = Some \<lparr>net_bytes_sent = 0, net_bytes_recv = 0, net_packets_sent = 0,
                      net_packets_recv = 0, bytes_sent_speed = 0, bytes_recv_speed = 0,
                      bytes_sent_speed_mb = 0, bytes_recv_speed_mb = 0, interfaces = []\<rparr>\<rparr>"

definition gpu_without_temperature :: gpu_entry where
  "gpu_without_temperature = \<lparr>load = Some 50, memory_percent = Some 10, gpu_temperature = None\<rparr>"

definition gpu_at_60_degrees :: gpu_entry where
  "gpu_at_60_degrees = \<lparr>load = Some 50, memory_percent = Some 10, gpu_temperature = Some 60\<rparr>"

text \<open>A session that is recording and holds one sample.\<close>

definition busy_app :: app where
  "busy_app =
     \<lparr>recording = True,
      recorded_data = [sample_with_gpu False []],
      recording_start_time = Some 10,
      threads_started = 1\<rparr>"

text \<open>
  A clock that reads \<open>k\<close> seconds at the \<open>k\<close>-th evaluation of the worker's loop
  condition, and a monitor that returns the same sample in every round.
\<close>

definition steady_clock :: "nat \<Rightarrow> rat" where
  "steady_clock k = of_nat k"

definition steady_samples :: "nat \<Rightarrow> rat sample option" where
  "steady_samples k = Some (sample_with_gpu False [])"

section \<open>Rounding to an integer and to decimals\<close>

lemma round_half_even_near:
  "\<bar>of_int (round_half_even y) - y\<bar> \<le> 1 / 2"
proof -
  have "of_int \<lfloor>y\<rfloor> \<le> y" "y < of_int \<lfloor>y\<rfloor> + 1"
    by linarith+
  then show ?thesis
    by (auto simp: round_half_even_def Let_def)
qed

lemma round_half_even_ge:
  assumes "of_int n \<le> y"
  shows "n \<le> round_half_even y"
proof -
  have "n \<le> \<lfloor>y\<rfloor>" using assms by (simp add: le_floor_iff)
  then show ?thesis
    by (auto simp: round_half_even_def Let_def)
qed

lemma round_half_even_le:
  assumes "y \<le> of_int n"
  shows "round_half_even y \<le> n"
proof (cases "y = of_int n")
  case True
  then show ?thesis by (simp add: round_half_even_def)
next
  case False
  then have lt: "y < of_int n" using assms by simp
  then have "\<lfloor>y\<rfloor> < n" by (simp add: floor_less_iff)
  then show ?thesis
    by (auto simp: round_half_even_def Let_def)
qed

lemma py_round_nonneg: "0 \<le> x \<Longrightarrow> 0 \<le> py_round x n"
  using round_half_even_ge [of 0 "x * 10 ^ n"] by (simp add: py_round_def)

lemma py_round_nonpos: "x \<le> 0 \<Longrightarrow> py_round x n \<le> 0"
  using round_half_even_le [of "x * 10 ^ n" 0]
  by (simp add: py_round_def mult_nonpos_nonneg divide_nonpos_pos)

lemma py_round_zero: "py_round 0 n = 0"
  by (simp add: py_round_def round_half_even_def)

lemma py_round_near: "\<bar>py_round x n - x\<bar> \<le> 1"
proof -
  define s :: rat where "s = 10 ^ n"
  define a where "a = of_int (round_half_even (x * s)) - x * s"
  have s: "1 \<le> s" by (simp add: s_def)
  have a: "\<bar>a\<bar> \<le> 1 / 2"
    unfolding a_def by (rule round_half_even_near)
  have "py_round x n - x = a / s"
    using s by (simp add: py_round_def a_def s_def diff_divide_distrib)
  moreover have "\<bar>a / s\<bar> \<le> \<bar>a\<bar>"
    using s by (simp add: divide_le_eq mult_le_cancel_left1)
  ultimately show ?thesis using a by linarith
qed

section \<open>Rounding to a double\<close>

lemma powi_pos: "(0::rat) < 2 powi k"
  by (simp add: power_int_def)

lemma powi_nat: "0 \<le> k \<Longrightarrow> (2::rat) powi k = 2 ^ nat k"
  by (simp add: power_int_def)

lemma bitlen_bounds_rat:
  assumes "0 < p"
  shows "(2::rat) powi (bitlen p - 1) \<le> of_int p" and "of_int p < (2::rat) powi (bitlen p)"
proof -
  have b: "1 \<le> bitlen p"
    using assms bitlen_eq_zero_iff [of p] bitlen_nonneg [of p] by linarith
  have "2 ^ nat (bitlen p - 1) \<le> p" "p < 2 ^ nat (bitlen p)"
    using bitlen_bounds [OF assms] by simp_all
  then have "(of_int (2 ^ nat (bitlen p - 1)) :: rat) \<le> of_int p"
       "(of_int p :: rat) < of_int (2 ^ nat (bitlen p))"
    by (simp_all only: of_int_le_iff of_int_less_iff)
  then show "(2::rat) powi (bitlen p - 1) \<le> of_int p" "of_int p < (2::rat) powi (bitlen p)"
    using b by (simp_all add: powi_nat)
qed

text \<open>The exponent that \<open>binary_exponent\<close> computes is the one of the binade of \<open>x\<close>.\<close>

lemma binary_exponent_bounds:
  assumes "x \<noteq> 0"
  shows "2 powi (binary_exponent x) \<le> \<bar>x\<bar>" and "\<bar>x\<bar> < 2 powi (binary_exponent x + 1)"
proof -
  obtain p q where pq: "quotient_of \<bar>x\<bar> = (p, q)"
    by (cases "quotient_of \<bar>x\<bar>")
  have q: "0 < q" using pq by (rule quotient_of_denom_pos)
  have x: "\<bar>x\<bar> = of_int p / of_int q"
    using pq by (simp add: quotient_of_div)
  have "0 < \<bar>x\<bar>" using assms by simp
  then have p: "0 < p"
    using q unfolding x by (simp add: zero_less_divide_iff)
  define d where "d = bitlen p - bitlen q"
  have qr: "(0::rat) < of_int q" using q by simp
  have lo: "(2::rat) powi (d - 1) \<le> \<bar>x\<bar>"
  proof -
    have "(2::rat) powi (d - 1) = 2 powi (bitlen p - 1) / 2 powi (bitlen q)"
      by (simp add: d_def power_int_diff)
    also have "\<dots> \<le> of_int p / 2 powi (bitlen q)"
      using bitlen_bounds_rat(1) [OF p] by (simp add: divide_right_mono powi_pos less_imp_le)
    also have "\<dots> \<le> of_int p / of_int q"
      using bitlen_bounds_rat(2) [OF q] p qr by (simp add: frac_le)
    finally show ?thesis by (simp add: x)
  qed
  have hi: "\<bar>x\<bar> < (2::rat) powi (d + 1)"
  proof -
    have "of_int p / of_int q < (2::rat) powi (bitlen p) / of_int q"
      using bitlen_bounds_rat(2) [OF p] qr by (simp add: divide_strict_right_mono)
    also have "\<dots> \<le> 2 powi (bitlen p) / 2 powi (bitlen q - 1)"
      using bitlen_bounds_rat(1) [OF q] by (simp add: frac_le powi_pos less_imp_le)
    also have "\<dots> = 2 powi (bitlen p - (bitlen q - 1))"
      by (simp only: power_int_diff [of "2::rat", simplified])
    also have "bitlen p - (bitlen q - 1) = d + 1"
      by (simp add: d_def)
    finally show ?thesis by (simp add: x)
  qed
  have e: "binary_exponent x = (if 2 powi d \<le> \<bar>x\<bar> then d else d - 1)"
    by (simp add: binary_exponent_def pq d_def)
  show "2 powi (binary_exponent x) \<le> \<bar>x\<bar>"
    using lo by (simp add: e)
  show "\<bar>x\<bar> < 2 powi (binary_exponent x + 1)"
    using hi by (auto simp: e not_le)
qed

lemma ulp_bound:
  assumes "x \<noteq> 0"
  shows "2 powi (max (binary_exponent x - 52) (- 1074)) \<le> max \<bar>x\<bar> 1"
proof (cases "- 1074 \<le> binary_exponent x - 52")
  case True
  have "(2::rat) powi (binary_exponent x - 52) \<le> 2 powi (binary_exponent x)"
    by (rule power_int_increasing) simp_all
  also have "\<dots> \<le> \<bar>x\<bar>" by (rule binary_exponent_bounds(1) [OF assms])
  finally show ?thesis using True by (simp add: max_def)
next
  case False
  have "(2::rat) powi (- 1074) \<le> 2 powi 0"
    by (rule power_int_increasing) simp_all
  then show ?thesis using False by (simp add: max_def)
qed

lemma fl64_near: "\<bar>fl64 x - x\<bar> \<le> max \<bar>x\<bar> 1 / 2"
proof (cases "x = 0")
  case True
  then show ?thesis by (simp add: fl64_def)
next
  case False
  define u :: rat where "u = 2 powi (max (binary_exponent x - 52) (- 1074))"
  have u: "0 < u" by (simp add: u_def powi_pos)
  have ub: "u \<le> max \<bar>x\<bar> 1" unfolding u_def by (rule ulp_bound [OF False])
  have "fl64 x - x = (of_int (round_half_even (x / u)) - x / u) * u"
    using False u by (simp add: fl64_def u_def Let_def algebra_simps)
  then have "\<bar>fl64 x - x\<bar> = \<bar>of_int (round_half_even (x / u)) - x / u\<bar> * u"
    using u by (simp add: abs_mult)
  also have "\<dots> \<le> (1 / 2) * u"
    using round_half_even_near [of "x / u"] u by (simp add: mult_right_mono)
  also have "\<dots> \<le> max \<bar>x\<bar> 1 / 2"
    using ub by simp
  finally show ?thesis .
qed

lemma fl64_nonneg: "0 \<le> x \<Longrightarrow> 0 \<le> fl64 x"
  using round_half_even_ge [of 0]
  by (simp add: fl64_def Let_def powi_pos zero_le_mult_iff less_imp_le)

lemma fl64_nonpos: "x \<le> 0 \<Longrightarrow> fl64 x \<le> 0"
  using round_half_even_le [of _ 0]
  by (simp add: fl64_def Let_def powi_pos mult_le_0_iff less_imp_le divide_le_0_iff)

lemma fl64_ge_300:
  assumes "300 \<le> x"
  shows "300 \<le> fl64 x"
proof -
  have x0: "x \<noteq> 0" "\<bar>x\<bar> = x" using assms by simp_all
  define e where "e = binary_exponent x"
  have lo: "2 powi e \<le> x" and hi: "x < 2 powi (e + 1)"
    using binary_exponent_bounds [OF x0(1)] by (simp_all add: e_def x0(2))
  have e8: "8 \<le> e"
  proof (rule ccontr)
    assume "\<not> 8 \<le> e"
    then have "e + 1 \<le> 8" by simp
    then have "(2::rat) powi (e + 1) \<le> 2 powi 8"
      by (intro power_int_increasing) simp_all
    then show False using hi assms by simp
  qed
  define k where "k = e - 52"
  define u :: rat where "u = 2 powi k"
  have u: "0 < u" by (simp add: u_def powi_pos)
  have f: "fl64 x = of_int (round_half_even (x / u)) * u"
    using x0(1) e8 by (simp add: fl64_def Let_def u_def k_def e_def max_def)
  show ?thesis
  proof (cases "k \<le> 2")
    case True
    define N :: int where "N = 75 * 2 ^ nat (2 - k)"
    have "of_int N * u = 75 * (2 powi (2 - k) * 2 powi k)"
      using True by (simp add: N_def u_def powi_nat)
    also have "2 powi (2 - k) * 2 powi k = (2::rat) powi 2"
      by (simp flip: power_int_add)
    finally have Nu: "of_int N * u = 300" by simp
    then have "of_int N = 300 / u" using u by (simp add: field_simps)
    also have "\<dots> \<le> x / u" using assms u by (simp add: divide_right_mono)
    finally have "N \<le> round_half_even (x / u)" by (rule round_half_even_ge)
    then have "of_int N * u \<le> of_int (round_half_even (x / u)) * u"
      using u by (simp add: mult_right_mono)
    then show ?thesis by (simp add: f Nu)
  next
    case False
    then have k3: "3 \<le> k" by simp
    have "(2::rat) powi 52 = 2 powi e / 2 powi k"
      by (simp add: k_def flip: power_int_diff)
    also have "\<dots> \<le> x / u" using lo u by (simp add: u_def divide_right_mono)
    finally have "of_int (2 ^ 52) \<le> x / u" by (simp add: powi_nat)
    then have "2 ^ 52 \<le> round_half_even (x / u)" by (rule round_half_even_ge)
    then have r: "(2::rat) ^ 52 \<le> of_int (round_half_even (x / u))"
      by (metis of_int_le_iff of_int_numeral of_int_power)
    have "(2::rat) powi 3 \<le> u"
      unfolding u_def using k3 by (intro power_int_increasing) simp_all
    then have u8: "8 \<le> u" by (simp add: powi_nat)
    have "(2::rat) ^ 52 * 8 \<le> of_int (round_half_even (x / u)) * u"
      using r u8 by (intro mult_mono) simp_all
    then show ?thesis by (simp add: f)
  qed
qed

section \<open>Floats\<close>

lemma to_float_Fin:
  assumes "\<bar>x\<bar> < 2 ^ 1023"
  shows "to_float x = Fin (fl64 x) \<and> \<bar>fl64 x\<bar> \<le> 2 * max \<bar>x\<bar> 1"
proof -
  have m: "max \<bar>x\<bar> 1 < 2 ^ 1023" using assms by simp
  have n: "\<bar>fl64 x\<bar> \<le> \<bar>x\<bar> + max \<bar>x\<bar> 1 / 2"
    using fl64_near [of x] by linarith
  have x1: "\<bar>x\<bar> \<le> max \<bar>x\<bar> 1" by simp
  have b: "\<bar>fl64 x\<bar> \<le> 2 * max \<bar>x\<bar> 1"
    using n x1 by linarith
  have "2 * max \<bar>x\<bar> 1 < 2 * 2 ^ 1023" using m by linarith
  also have "\<dots> = (2::rat) ^ 1024" by simp
  finally have "\<bar>fl64 x\<bar> < 2 ^ 1024" using b by linarith
  then have "to_float x = Fin (fl64 x)"
    by (simp add: to_float_def Let_def abs_less_iff not_le)
  then show ?thesis
    using b by simp
qed

lemma to_float_ge0: "0 \<le> x \<Longrightarrow> float_ge (to_float x) 0"
  using fl64_nonneg [of x] by (simp add: to_float_def Let_def float_ge_def not_le)

lemma to_float_le0: "x \<le> 0 \<Longrightarrow> float_le (to_float x) 0"
  using fl64_nonpos [of x]
  by (auto simp: to_float_def Let_def float_le_def not_le)

lemma to_float_not_gt0: "x \<le> 0 \<Longrightarrow> \<not> float_gt (to_float x) 0"
  using fl64_nonpos [of x]
  by (auto simp: to_float_def Let_def float_gt_def not_le)

lemma to_float_ge_300: "300 \<le> x \<Longrightarrow> \<not> float_lt (to_float x) 300"
  using fl64_ge_300 [of x]
  by (auto simp: to_float_def Let_def float_lt_def not_le)

lemma to_float_lt_300: "float_lt (to_float x) 300 \<Longrightarrow> x < 300"
  using to_float_ge_300 [of x] by (cases "300 \<le> x") simp_all

section \<open>Division and rounding of rates\<close>

lemma bind_Inr: "bind (Inr v) f = f v"
  by (simp add: bind_def)

lemma to_float_zero: "to_float 0 = Fin 0"
  by (simp add: to_float_def fl64_def)

lemma to_float_bounded: "to_float x = Fin r \<Longrightarrow> \<bar>r\<bar> < 2 ^ 1024"
  by (auto simp: to_float_def Let_def not_le abs_less_iff split: if_splits)

lemma to_float_not_NaN: "to_float x \<noteq> NaN"
  by (simp add: to_float_def Let_def)

text \<open>A difference of two 64-bit counters converts to a float of its sign.\<close>

lemma counter_difference: "\<bar>uint (a :: 64 word) - uint (b :: 64 word)\<bar> < 2 ^ 64"
proof -
  have "0 \<le> uint a" "uint a < 2 ^ 64" "0 \<le> uint b" "uint b < 2 ^ 64"
    using uint_lt2p [of a] uint_lt2p [of b] by simp_all
  then show ?thesis by linarith
qed

lemma int_to_float_small:
  assumes "\<bar>c\<bar> < 2 ^ 64"
  shows "int_to_float c = Inr (Fin (fl64 (of_int c)))"
proof -
  have "\<bar>of_int c :: rat\<bar> < 2 ^ 64"
    using assms by (metis of_int_abs of_int_less_iff of_int_numeral of_int_power)
  also have "(2::rat) ^ 64 < 2 ^ 1023" by simp
  finally have "to_float (of_int c) = Fin (fl64 (of_int c))"
    using to_float_Fin by blast
  then show ?thesis by (simp add: int_to_float_def)
qed

lemma int_to_float_1024: "int_to_float 1024 = Inr (Fin 1024)"
  by code_simp

lemma int_to_float_1024_sq: "int_to_float (1024 ^ 2) = Inr (Fin 1048576)"
  by code_simp

lemma float_truediv_positive:
  assumes "float_gt td 0"
  shows "\<exists>q. float_truediv (Fin x) td = Inr q
            \<and> (\<forall>r. q = Fin r \<longrightarrow> \<bar>r\<bar> < 2 ^ 1024)
            \<and> (0 \<le> x \<longrightarrow> float_ge q 0) \<and> (x \<le> 0 \<longrightarrow> float_le q 0)"
proof (cases td)
  case (Fin y)
  then have y: "0 < y" using assms by (simp add: float_gt_def)
  then have "float_truediv (Fin x) td = Inr (to_float (x / y))"
    using Fin by (simp add: float_truediv_def)
  moreover have "0 \<le> x \<longrightarrow> float_ge (to_float (x / y)) 0"
    using y by (simp add: to_float_ge0)
  moreover have "x \<le> 0 \<longrightarrow> float_le (to_float (x / y)) 0"
    using y by (simp add: to_float_le0 divide_nonpos_pos)
  ultimately show ?thesis
    using to_float_bounded by blast
next
  case PInf
  then show ?thesis
    by (simp add: float_truediv_def float_ge_def float_le_def)
next
  case NInf
  then show ?thesis using assms by (simp add: float_gt_def)
next
  case NaN
  then show ?thesis using assms by (simp add: float_gt_def)
qed

text \<open>The quotient (current - previous) / time_diff of the branch \<open>time_diff > 0\<close>.\<close>

lemma counter_quotient:
  fixes a b :: "64 word"
  assumes "float_gt td 0"
  shows "\<exists>q. py_truediv (PyInt (uint a - uint b)) (PyFloat td) = Inr q
            \<and> (\<forall>r. q = Fin r \<longrightarrow> \<bar>r\<bar> < 2 ^ 1024)
            \<and> (b \<le> a \<longrightarrow> float_ge q 0) \<and> (a \<le> b \<longrightarrow> float_le q 0)"
proof -
  let ?c = "uint a - uint b"
  have conv: "int_to_float ?c = Inr (Fin (fl64 (of_int ?c)))"
    by (rule int_to_float_small [OF counter_difference])
  have up: "0 \<le> fl64 (of_int ?c)" if "b \<le> a"
  proof (rule fl64_nonneg)
    have "0 \<le> ?c" using that by (simp add: word_le_def)
    then show "(0::rat) \<le> of_int ?c" by (simp only: of_int_0_le_iff)
  qed
  have down: "fl64 (of_int ?c) \<le> 0" if "a \<le> b"
  proof (rule fl64_nonpos)
    have "?c \<le> 0" using that by (simp add: word_le_def)
    then show "(of_int ?c :: rat) \<le> 0" by (simp only: of_int_le_0_iff)
  qed
  obtain q where "float_truediv (Fin (fl64 (of_int ?c))) td = Inr q"
      "\<forall>r. q = Fin r \<longrightarrow> \<bar>r\<bar> < 2 ^ 1024"
      "0 \<le> fl64 (of_int ?c) \<longrightarrow> float_ge q 0" "fl64 (of_int ?c) \<le> 0 \<longrightarrow> float_le q 0"
    using float_truediv_positive [OF assms] by blast
  then show ?thesis
    using conv up down by (auto simp: bind_Inr)
qed

text \<open>
  Scaling by 1024 or 1024 ** 2 and rounding to two decimals never raises on such a
  quotient, and keeps its sign.
\<close>

lemma round_float_small:
  assumes "\<bar>r\<bar> \<le> 2 ^ 1020"
  shows "\<exists>t. round_float (Fin r) 2 = Inr (Fin t) \<and> (0 \<le> r \<longrightarrow> 0 \<le> t) \<and> (r \<le> 0 \<longrightarrow> t \<le> 0)"
proof -
  have "\<bar>py_round r 2\<bar> \<le> \<bar>r\<bar> + 1"
    using py_round_near [of r 2] by linarith
  also have "\<dots> \<le> 2 ^ 1020 + 1" using assms by simp
  also have "\<dots> < (2::rat) ^ 1023" by simp
  finally have "to_float (py_round r 2) = Fin (fl64 (py_round r 2))"
    using to_float_Fin by blast
  then show ?thesis
    by (simp add: round_float_def fl64_nonneg fl64_nonpos py_round_nonneg py_round_nonpos)
qed

lemma scale_and_round:
  assumes "\<forall>r. q = Fin r \<longrightarrow> \<bar>r\<bar> < 2 ^ 1024" and "int_to_float k = Inr (Fin (of_int k))"
    and "1024 \<le> k"
  shows "\<exists>s t. py_truediv (PyFloat q) (PyInt k) = Inr s \<and> round_float s 2 = Inr t
            \<and> (float_ge q 0 \<longrightarrow> float_ge t 0) \<and> (float_le q 0 \<longrightarrow> float_le t 0)"
proof (cases q)
  case (Fin r)
  have k: "(1024::rat) \<le> of_int k" using assms(3) by (metis of_int_le_iff of_int_numeral)
  then have k0: "(0::rat) < of_int k" by linarith
  have r: "\<bar>r\<bar> < 2 ^ 1024" using assms(1) Fin by simp
  have "\<bar>r / of_int k\<bar> = \<bar>r\<bar> / of_int k" using k0 by simp
  also have "\<dots> \<le> \<bar>r\<bar> / 1024"
    by (rule divide_left_mono) (use k in simp_all)
  also have "\<dots> < 2 ^ 1024 / 1024" using r by (simp add: divide_strict_right_mono)
  also have "\<dots> = (2::rat) ^ 1014" by simp
  finally have small: "\<bar>r / of_int k\<bar> < 2 ^ 1014" .
  then have "\<bar>r / of_int k\<bar> < 2 ^ 1023" by simp
  then have tf: "to_float (r / of_int k) = Fin (fl64 (r / of_int k))"
      and b: "\<bar>fl64 (r / of_int k)\<bar> \<le> 2 * max \<bar>r / of_int k\<bar> 1"
    using to_float_Fin by blast+
  have "max \<bar>r / of_int k\<bar> 1 \<le> 2 ^ 1014" using small by simp
  then have "\<bar>fl64 (r / of_int k)\<bar> \<le> 2 * 2 ^ 1014" using b by linarith
  then have "\<bar>fl64 (r / of_int k)\<bar> \<le> 2 ^ 1020" by simp
  then obtain t where t: "round_float (Fin (fl64 (r / of_int k))) 2 = Inr (Fin t)"
      "0 \<le> fl64 (r / of_int k) \<longrightarrow> 0 \<le> t" "fl64 (r / of_int k) \<le> 0 \<longrightarrow> t \<le> 0"
    using round_float_small by blast
  have s: "py_truediv (PyFloat q) (PyInt k) = Inr (Fin (fl64 (r / of_int k)))"
    using Fin k0 tf by (simp add: assms(2) bind_Inr float_truediv_def)
  have "0 \<le> r \<longrightarrow> 0 \<le> fl64 (r / of_int k)"
    using k0 by (simp add: fl64_nonneg)
  moreover have "r \<le> 0 \<longrightarrow> fl64 (r / of_int k) \<le> 0"
    using k0 by (simp add: fl64_nonpos divide_nonpos_pos)
  ultimately show ?thesis
    using s t Fin by (auto simp: float_ge_def float_le_def)
next
  case PInf
  have "(0::rat) < of_int k" using assms(3) by simp
  then show ?thesis using PInf
    by (simp add: assms(2) bind_Inr float_truediv_def round_float_def float_ge_def float_le_def)
next
  case NInf
  have "(0::rat) < of_int k" using assms(3) by simp
  then show ?thesis using NInf
    by (simp add: assms(2) bind_Inr float_truediv_def round_float_def float_ge_def float_le_def)
next
  case NaN
  have "(0::rat) < of_int k" using assms(3) by simp
  then show ?thesis using NaN
    by (simp add: assms(2) bind_Inr float_truediv_def round_float_def float_ge_def float_le_def)
qed

lemma scale_kb:
  assumes "\<forall>r. q = Fin r \<longrightarrow> \<bar>r\<bar> < 2 ^ 1024"
  shows "\<exists>s t. py_truediv (PyFloat q) (PyInt 1024) = Inr s \<and> round_float s 2 = Inr t
            \<and> (float_ge q 0 \<longrightarrow> float_ge t 0) \<and> (float_le q 0 \<longrightarrow> float_le t 0)"
  using scale_and_round [OF assms, of 1024] int_to_float_1024 by simp

lemma scale_mb:
  assumes "\<forall>r. q = Fin r \<longrightarrow> \<bar>r\<bar> < 2 ^ 1024"
  shows "\<exists>s t. py_truediv (PyFloat q) (PyInt (1024 ^ 2)) = Inr s \<and> round_float s 2 = Inr t
            \<and> (float_ge q 0 \<longrightarrow> float_ge t 0) \<and> (float_le q 0 \<longrightarrow> float_le t 0)"
  using scale_and_round [OF assms, of "1024 ^ 2"] int_to_float_1024_sq by simp

text \<open>The branch without elapsed time: the integer 0, scaled and rounded, is the float 0.\<close>

lemma scale_zero:
  "py_truediv (PyInt 0) (PyInt 1024) = Inr (Fin 0)"
  "py_truediv (PyInt 0) (PyInt (1024 ^ 2)) = Inr (Fin 0)"
  "round_float (Fin 0) 2 = Inr (Fin 0)"
  by (simp_all add: to_float_zero round_float_def py_round_zero)

section \<open>The rate methods never raise\<close>

text \<open>
  In the branch \<open>time_diff > 0\<close> each reported rate is obtained from the counters by the
  chain that the code writes: the division by \<open>time_diff\<close>, the division by the unit and
  \<^verbatim>\<open>round(..., 2)\<close>. No step raises, and the sign of the counter difference is kept.
\<close>

lemma disk_rates:
  assumes "float_gt (to_float (t - last_time self)) 0"
  shows "\<exists>d rq rs wq ws.
           get_disk_info self parts t c = Inr (d, self\<lparr>last_disk_io := c\<rparr>)
         \<and> py_truediv (PyInt (uint (read_bytes c) - uint (read_bytes (last_disk_io self))))
              (PyFloat (to_float (t - last_time self))) = Inr rq
         \<and> py_truediv (PyFloat rq) (PyInt (1024 ^ 2)) = Inr rs
         \<and> round_float rs 2 = Inr (read_speed (io d))
         \<and> py_truediv (PyInt (uint (write_bytes c) - uint (write_bytes (last_disk_io self))))
              (PyFloat (to_float (t - last_time self))) = Inr wq
         \<and> py_truediv (PyFloat wq) (PyInt (1024 ^ 2)) = Inr ws
         \<and> round_float ws 2 = Inr (write_speed (io d))
         \<and> (read_bytes (last_disk_io self) \<le> read_bytes c \<longrightarrow> float_ge (read_speed (io d)) 0)
         \<and> (read_bytes c \<le> read_bytes (last_disk_io self) \<longrightarrow> float_le (read_speed (io d)) 0)
         \<and> (write_bytes (last_disk_io self) \<le> write_bytes c \<longrightarrow> float_ge (write_speed (io d)) 0)
         \<and> (write_bytes c \<le> write_bytes (last_disk_io self) \<longrightarrow> float_le (write_speed (io d)) 0)"
proof -
  obtain rq where rq: "py_truediv (PyInt (uint (read_bytes c) - uint (read_bytes (last_disk_io self))))
              (PyFloat (to_float (t - last_time self))) = Inr rq"
      "\<forall>r. rq = Fin r \<longrightarrow> \<bar>r\<bar> < 2 ^ 1024"
      "read_bytes (last_disk_io self) \<le> read_bytes c \<longrightarrow> float_ge rq 0"
      "read_bytes c \<le> read_bytes (last_disk_io self) \<longrightarrow> float_le rq 0"
    using counter_quotient [OF assms] by blast
  obtain wq where wq: "py_truediv (PyInt (uint (write_bytes c) - uint (write_bytes (last_disk_io self))))
              (PyFloat (to_float (t - last_time self))) = Inr wq"
      "\<forall>r. wq = Fin r \<longrightarrow> \<bar>r\<bar> < 2 ^ 1024"
      "write_bytes (last_disk_io self) \<le> write_bytes c \<longrightarrow> float_ge wq 0"
      "write_bytes c \<le> write_bytes (last_disk_io self) \<longrightarrow> float_le wq 0"
    using counter_quotient [OF assms] by blast
  obtain rs rt where rs: "py_truediv (PyFloat rq) (PyInt (1024 ^ 2)) = Inr rs"
      "round_float rs 2 = Inr rt" "float_ge rq 0 \<longrightarrow> float_ge rt 0" "float_le rq 0 \<longrightarrow> float_le rt 0"
    using scale_mb [OF rq(2)] by blast
  obtain ws wt where ws: "py_truediv (PyFloat wq) (PyInt (1024 ^ 2)) = Inr ws"
      "round_float ws 2 = Inr wt" "float_ge wq 0 \<longrightarrow> float_ge wt 0" "float_le wq 0 \<longrightarrow> float_le wt 0"
    using scale_mb [OF wq(2)] by blast
  have "get_disk_info self parts t c =
          Inr (\<lparr>partitions = parts,
                io = \<lparr>io_read_bytes = read_bytes c, io_write_bytes = write_bytes c,
                       read_speed = rt, write_speed = wt\<rparr>\<rparr>,
               self\<lparr>last_disk_io := c\<rparr>)"
    by (simp only: get_disk_info_def Let_def assms if_True bind_Inr prod.case
          rq(1) wq(1) rs(1,2) ws(1,2))
  then show ?thesis
    using rq wq rs ws by auto
qed

lemma disk_rates_zero:
  assumes "\<not> float_gt (to_float (t - last_time self)) 0"
  shows "get_disk_info self parts t c =
           Inr (\<lparr>partitions = parts,
                 io = \<lparr>io_read_bytes = read_bytes c, io_write_bytes = write_bytes c,
                        read_speed = Fin 0, write_speed = Fin 0\<rparr>\<rparr>,
                self\<lparr>last_disk_io := c\<rparr>)"
  by (simp only: get_disk_info_def Let_def assms if_False bind_Inr prod.case scale_zero)

lemma network_rates:
  assumes "float_gt (to_float (t - last_time self)) 0"
  shows "\<exists>n sq sk sm rq rk rm.
           get_network_info self t c ifs = Inr (n, self\<lparr>last_net_io := c, last_time := t\<rparr>)
         \<and> py_truediv (PyInt (uint (bytes_sent c) - uint (bytes_sent (last_net_io self))))
              (PyFloat (to_float (t - last_time self))) = Inr sq
         \<and> py_truediv (PyFloat sq) (PyInt 1024) = Inr sk
         \<and> round_float sk 2 = Inr (bytes_sent_speed n)
         \<and> py_truediv (PyFloat sq) (PyInt (1024 ^ 2)) = Inr sm
         \<and> round_float sm 2 = Inr (bytes_sent_speed_mb n)
         \<and> py_truediv (PyInt (uint (bytes_recv c) - uint (bytes_recv (last_net_io self))))
              (PyFloat (to_float (t - last_time self))) = Inr rq
         \<and> py_truediv (PyFloat rq) (PyInt 1024) = Inr rk
         \<and> round_float rk 2 = Inr (bytes_recv_speed n)
         \<and> py_truediv (PyFloat rq) (PyInt (1024 ^ 2)) = Inr rm
         \<and> round_float rm 2 = Inr (bytes_recv_speed_mb n)
         \<and> (bytes_sent (last_net_io self) \<le> bytes_sent c \<longrightarrow>
              float_ge (bytes_sent_speed n) 0 \<and> float_ge (bytes_sent_speed_mb n) 0)
         \<and> (bytes_sent c \<le> bytes_sent (last_net_io self) \<longrightarrow>
              float_le (bytes_sent_speed n) 0 \<and> float_le (bytes_sent_speed_mb n) 0)
         \<and> (bytes_recv (last_net_io self) \<le> bytes_recv c \<longrightarrow>
              float_ge (bytes_recv_speed n) 0 \<and> float_ge (bytes_recv_speed_mb n) 0)
         \<and> (bytes_recv c \<le> bytes_recv (last_net_io self) \<longrightarrow>
              float_le (bytes_recv_speed n) 0 \<and> float_le (bytes_recv_speed_mb n) 0)"
proof -
  obtain sq where sq: "py_truediv (PyInt (uint (bytes_sent c) - uint (bytes_sent (last_net_io self))))
              (PyFloat (to_float (t - last_time self))) = Inr sq"
      "\<forall>r. sq = Fin r \<longrightarrow> \<bar>r\<bar> < 2 ^ 1024"
      "bytes_sent (last_net_io self) \<le> bytes_sent c \<longrightarrow> float_ge sq 0"
      "bytes_sent c \<le> bytes_sent (last_net_io self) \<longrightarrow> float_le sq 0"
    using counter_quotient [OF assms] by blast
  obtain rq where rq: "py_truediv (PyInt (uint (bytes_recv c) - uint (bytes_recv (last_net_io self))))
              (PyFloat (to_float (t - last_time self))) = Inr rq"
      "\<forall>r. rq = Fin r \<longrightarrow> \<bar>r\<bar> < 2 ^ 1024"
      "bytes_recv (last_net_io self) \<le> bytes_recv c \<longrightarrow> float_ge rq 0"
      "bytes_recv c \<le> bytes_recv (last_net_io self) \<longrightarrow> float_le rq 0"
    using counter_quotient [OF assms] by blast
  obtain sk skt where sk: "py_truediv (PyFloat sq) (PyInt 1024) = Inr sk"
      "round_float sk 2 = Inr skt" "float_ge sq 0 \<longrightarrow> float_ge skt 0" "float_le sq 0 \<longrightarrow> float_le skt 0"
    using scale_kb [OF sq(2)] by blast
  obtain sm smt where sm: "py_truediv (PyFloat sq) (PyInt (1024 ^ 2)) = Inr sm"
      "round_float sm 2 = Inr smt" "float_ge sq 0 \<longrightarrow> float_ge smt 0" "float_le sq 0 \<longrightarrow> float_le smt 0"
    using scale_mb [OF sq(2)] by blast
  obtain rk rkt where rk: "py_truediv (PyFloat rq) (PyInt 1024) = Inr rk"
      "round_float rk 2 = Inr rkt" "float_ge rq 0 \<longrightarrow> float_ge rkt 0" "float_le rq 0 \<longrightarrow> float_le rkt 0"
    using scale_kb [OF rq(2)] by blast
  obtain rm rmt where rm: "py_truediv (PyFloat rq) (PyInt (1024 ^ 2)) = Inr rm"
      "round_float rm 2 = Inr rmt" "float_ge rq 0 \<longrightarrow> float_ge rmt 0" "float_le rq 0 \<longrightarrow> float_le rmt 0"
    using scale_mb [OF rq(2)] by blast
  have "get_network_info self t c ifs =
          Inr (\<lparr>net_bytes_sent = bytes_sent c, net_bytes_recv = bytes_recv c,
                net_packets_sent = packets_sent c, net_packets_recv = packets_recv c,
                bytes_sent_speed = skt, bytes_recv_speed = rkt,
                bytes_sent_speed_mb = smt, bytes_recv_speed_mb = rmt,
                interfaces = ifs\<rparr>,
               self\<lparr>last_net_io := c, last_time := t\<rparr>)"
    by (simp only: get_network_info_def Let_def assms if_True bind_Inr prod.case
          sq(1) rq(1) sk(1,2) sm(1,2) rk(1,2) rm(1,2))
  then show ?thesis
    using sq rq sk sm rk rm by auto
qed

lemma network_rates_zero:
  assumes "\<not> float_gt (to_float (t - last_time self)) 0"
  shows "get_network_info self t c ifs =
           Inr (\<lparr>net_bytes_sent = bytes_sent c, net_bytes_recv = bytes_recv c,
                 net_packets_sent = packets_sent c, net_packets_recv = packets_recv c,
                 bytes_sent_speed = Fin 0, bytes_recv_speed = Fin 0,
                 bytes_sent_speed_mb = Fin 0, bytes_recv_speed_mb = Fin 0,
                 interfaces = ifs\<rparr>,
                self\<lparr>last_net_io := c, last_time := t\<rparr>)"
  by (simp only: get_network_info_def Let_def assms if_False bind_Inr prod.case scale_zero)

lemma get_disk_info_returns:
  "\<exists>d. get_disk_info self parts t c = Inr (d, self\<lparr>last_disk_io := c\<rparr>)"
  using disk_rates [of t self parts c] disk_rates_zero [of t self parts c] by blast

lemma get_network_info_returns:
  "\<exists>n. get_network_info self t c ifs = Inr (n, self\<lparr>last_net_io := c, last_time := t\<rparr>)"
  using network_rates [of t self c ifs] network_rates_zero [of t self c ifs] by blast

text \<open>
  What the two methods return depends on the monitor through \<open>last_time\<close> and their own
  previous counters only.
\<close>

lemma get_disk_info_frame:
  "get_disk_info self parts t c = Inr (d, s) \<Longrightarrow>
   get_disk_info (self\<lparr>last_net_io := x\<rparr>) parts t c = Inr (d, s\<lparr>last_net_io := x\<rparr>)"
  by (auto simp: get_disk_info_def Let_def bind_def split: sum.splits if_splits prod.splits)

lemma get_network_info_frame:
  "get_network_info self t c ifs = Inr (n, s) \<Longrightarrow>
   get_network_info (self\<lparr>last_disk_io := x\<rparr>) t c ifs = Inr (n, s\<lparr>last_disk_io := x\<rparr>)"
  by (auto simp: get_network_info_def Let_def bind_def split: sum.splits if_splits prod.splits)

section \<open>Claims about the rate computation\<close>

text \<open>
  C7. If the elapsed time between the previous and the current sample is less than or
  equal to 0, \<^verbatim>\<open>get_disk_info\<close> and \<^verbatim>\<open>get_network_info\<close> return normally (no division by
  zero is raised) and every rate they report is the float 0 (not NaN, not an infinity).
\<close>

theorem C7_no_elapsed_time_gives_zero_rates:
  assumes "current_time - last_time self \<le> 0"
  shows "\<exists>d n s1 s2.
           get_disk_info self parts current_time current_disk_io = Inr (d, s1)
         \<and> read_speed (io d) = Fin 0 \<and> write_speed (io d) = Fin 0
         \<and> get_network_info self current_time current_net_io ifs = Inr (n, s2)
         \<and> bytes_sent_speed n = Fin 0 \<and> bytes_recv_speed n = Fin 0
         \<and> bytes_sent_speed_mb n = Fin 0 \<and> bytes_recv_speed_mb n = Fin 0"
proof -
  have el: "\<not> float_gt (to_float (current_time - last_time self)) 0"
    using assms by (rule to_float_not_gt0)
  show ?thesis
    unfolding disk_rates_zero [OF el] network_rates_zero [OF el] by simp
qed

theorem C7_witness:
  "(10::rat) - last_time monitor0 \<le> 0
   \<and> (\<exists>d n s1 s2.
           get_disk_info monitor0 [] 10 \<lparr>read_bytes = 2097153, write_bytes = 4194305\<rparr> = Inr (d, s1)
         \<and> read_speed (io d) = Fin 0 \<and> write_speed (io d) = Fin 0
         \<and> get_network_info monitor0 10
              \<lparr>bytes_sent = 4097, bytes_recv = 8193, packets_sent = 5, packets_recv = 9\<rparr> []
            = Inr (n, s2)
         \<and> bytes_sent_speed n = Fin 0 \<and> bytes_recv_speed n = Fin 0
         \<and> bytes_sent_speed_mb n = Fin 0 \<and> bytes_recv_speed_mb n = Fin 0)"
proof -
  have h: "(10::rat) - last_time monitor0 \<le> 0"
    by (simp add: monitor0_def)
  show ?thesis
    using h C7_no_elapsed_time_gives_zero_rates [OF h] by simp
qed

text \<open>
  C1 as stated fails: a counter that went from 2097152 (resp. 4194304) bytes back to 0
  within one second is reported as a read (resp. write) speed of -2 (resp. -4) MB/s.
\<close>

theorem C1_counterexample:
  "read_bytes \<lparr>read_bytes = 0, write_bytes = 0\<rparr> < read_bytes (last_disk_io monitor0)
   \<and> get_disk_info monitor0 [] 11 \<lparr>read_bytes = 0, write_bytes = 0\<rparr> =
       Inr (\<lparr>partitions = [],
             io = \<lparr>io_read_bytes = 0, io_write_bytes = 0,
                    read_speed = Fin (- 2), write_speed = Fin (- 4)\<rparr>\<rparr>,
            monitor0\<lparr>last_disk_io := \<lparr>read_bytes = 0, write_bytes = 0\<rparr>\<rparr>)"
  by code_simp

text \<open>
  C1, amended. For every pair of successive readings in which the current counter is
  smaller than the previous one, the reported disk and network rate is never positive,
  but it is not clamped to 0: when the elapsed time \<open>time_diff\<close> is > 0, the rate is the
  float quotient (current - previous) / time_diff, divided by the unit and rounded to two
  decimals, which is negative unless it rounds to zero.
\<close>

theorem C1_wraparound_rate_is_not_clamped:
  "\<exists>d n s1 s2.
      get_disk_info self parts current_time cd = Inr (d, s1)
    \<and> get_network_info self current_time cn ifs = Inr (n, s2)
    \<and> (read_bytes cd < read_bytes (last_disk_io self) \<longrightarrow>
         float_le (read_speed (io d)) 0
         \<and> (float_gt (to_float (current_time - last_time self)) 0 \<longrightarrow>
              (\<exists>q s. py_truediv (PyInt (uint (read_bytes cd) - uint (read_bytes (last_disk_io self))))
                       (PyFloat (to_float (current_time - last_time self))) = Inr q
                   \<and> py_truediv (PyFloat q) (PyInt (1024 ^ 2)) = Inr s
                   \<and> round_float s 2 = Inr (read_speed (io d)))))
    \<and> (write_bytes cd < write_bytes (last_disk_io self) \<longrightarrow>
         float_le (write_speed (io d)) 0
         \<and> (float_gt (to_float (current_time - last_time self)) 0 \<longrightarrow>
              (\<exists>q s. py_truediv (PyInt (uint (write_bytes cd) - uint (write_bytes (last_disk_io self))))
                       (PyFloat (to_float (current_time - last_time self))) = Inr q
                   \<and> py_truediv (PyFloat q) (PyInt (1024 ^ 2)) = Inr s
                   \<and> round_float s 2 = Inr (write_speed (io d)))))
    \<and> (bytes_sent cn < bytes_sent (last_net_io self) \<longrightarrow>
         float_le (bytes_sent_speed n) 0 \<and> float_le (bytes_sent_speed_mb n) 0
         \<and> (float_gt (to_float (current_time - last_time self)) 0 \<longrightarrow>
              (\<exists>q s. py_truediv (PyInt (uint (bytes_sent cn) - uint (bytes_sent (last_net_io self))))
                       (PyFloat (to_float (current_time - last_time self))) = Inr q
                   \<and> py_truediv (PyFloat q) (PyInt 1024) = Inr s
                   \<and> round_float s 2 = Inr (bytes_sent_speed n))))
    \<and> (bytes_recv cn < bytes_recv (last_net_io self) \<longrightarrow>
         float_le (bytes_recv_speed n) 0 \<and> float_le (bytes_recv_speed_mb n) 0
         \<and> (float_gt (to_float (current_time - last_time self)) 0 \<longrightarrow>
              (\<exists>q s. py_truediv (PyInt (uint (bytes_recv cn) - uint (bytes_recv (last_net_io self))))
                       (PyFloat (to_float (current_time - last_time self))) = Inr q
                   \<and> py_truediv (PyFloat q) (PyInt 1024) = Inr s
                   \<and> round_float s 2 = Inr (bytes_recv_speed n))))"
proof (cases "float_gt (to_float (current_time - last_time self)) 0")
  case True
  obtain d rq rs wq ws where d:
      "get_disk_info self parts current_time cd = Inr (d, self\<lparr>last_disk_io := cd\<rparr>)"
      "py_truediv (PyInt (uint (read_bytes cd) - uint (read_bytes (last_disk_io self))))
              (PyFloat (to_float (current_time - last_time self))) = Inr rq"
      "py_truediv (PyFloat rq) (PyInt (1024 ^ 2)) = Inr rs"
      "round_float rs 2 = Inr (read_speed (io d))"
      "py_truediv (PyInt (uint (write_bytes cd) - uint (write_bytes (last_disk_io self))))
              (PyFloat (to_float (current_time - last_time self))) = Inr wq"
      "py_truediv (PyFloat wq) (PyInt (1024 ^ 2)) = Inr ws"
      "round_float ws 2 = Inr (write_speed (io d))"
      "read_bytes cd \<le> read_bytes (last_disk_io self) \<longrightarrow> float_le (read_speed (io d)) 0"
      "write_bytes cd \<le> write_bytes (last_disk_io self) \<longrightarrow> float_le (write_speed (io d)) 0"
    using disk_rates [OF True, of parts cd] by blast
  obtain n sq sk sm rcq rk rm where n:
      "get_network_info self current_time cn ifs =
         Inr (n, self\<lparr>last_net_io := cn, last_time := current_time\<rparr>)"
      "py_truediv (PyInt (uint (bytes_sent cn) - uint (bytes_sent (last_net_io self))))
              (PyFloat (to_float (current_time - last_time self))) = Inr sq"
      "py_truediv (PyFloat sq) (PyInt 1024) = Inr sk"
      "round_float sk 2 = Inr (bytes_sent_speed n)"
      "py_truediv (PyInt (uint (bytes_recv cn) - uint (bytes_recv (last_net_io self))))
              (PyFloat (to_float (current_time - last_time self))) = Inr rcq"
      "py_truediv (PyFloat rcq) (PyInt 1024) = Inr rk"
      "round_float rk 2 = Inr (bytes_recv_speed n)"
      "bytes_sent cn \<le> bytes_sent (last_net_io self) \<longrightarrow>
         float_le (bytes_sent_speed n) 0 \<and> float_le (bytes_sent_speed_mb n) 0"
      "bytes_recv cn \<le> bytes_recv (last_net_io self) \<longrightarrow>
         float_le (bytes_recv_speed n) 0 \<and> float_le (bytes_recv_speed_mb n) 0"
    using network_rates [OF True, of cn ifs] by blast
  show ?thesis
    using d n by (intro exI [of _ d] exI [of _ n] exI conjI impI) (auto simp: less_imp_le)
next
  case False
  have z: "float_le (Fin 0) 0" by (simp add: float_le_def)
  show ?thesis
    unfolding disk_rates_zero [OF False] network_rates_zero [OF False]
    using False z by simp
qed

theorem C1_witness:
  "read_bytes \<lparr>read_bytes = 0, write_bytes = 0\<rparr> < read_bytes (last_disk_io monitor0)
   \<and> write_bytes \<lparr>read_bytes = 0, write_bytes = 0\<rparr> < write_bytes (last_disk_io monitor0)
   \<and> bytes_sent \<lparr>bytes_sent = 0, bytes_recv = 0, packets_sent = 0, packets_recv = 0\<rparr>
       < bytes_sent (last_net_io monitor0)
   \<and> bytes_recv \<lparr>bytes_sent = 0, bytes_recv = 0, packets_sent = 0, packets_recv = 0\<rparr>
       < bytes_recv (last_net_io monitor0)
   \<and> float_gt (to_float (11 - last_time monitor0)) 0
   \<and> (\<exists>d n s1 s2.
         get_disk_info monitor0 [] 11 \<lparr>read_bytes = 0, write_bytes = 0\<rparr> = Inr (d, s1)
       \<and> get_network_info monitor0 11
            \<lparr>bytes_sent = 0, bytes_recv = 0, packets_sent = 0, packets_recv = 0\<rparr> [] = Inr (n, s2)
       \<and> float_le (read_speed (io d)) 0 \<and> float_le (write_speed (io d)) 0
       \<and> float_le (bytes_sent_speed n) 0 \<and> float_le (bytes_recv_speed n) 0)"
proof -
  have h: "float_gt (to_float (11 - last_time monitor0)) 0"
    by code_simp
  show ?thesis
    using h C1_wraparound_rate_is_not_clamped [of monitor0 "[]" 11
        "\<lparr>read_bytes = 0, write_bytes = 0\<rparr>"
        "\<lparr>bytes_sent = 0, bytes_recv = 0, packets_sent = 0, packets_recv = 0\<rparr>" "[]"]
    by (auto simp: monitor0_def)
qed

text \<open>
  C4 as stated fails: one byte sent within one second is 1/1024 KB/s, and the reported
  send rate is 0, because the scaled quotient is rounded to two decimals.
\<close>

theorem C4_counterexample:
  "0 < (11::rat) - last_time monitor0
   \<and> get_network_info monitor0 11
        \<lparr>bytes_sent = 4097, bytes_recv = 8192, packets_sent = 5, packets_recv = 8\<rparr> [] =
       Inr (\<lparr>net_bytes_sent = 4097, net_bytes_recv = 8192, net_packets_sent = 5,
             net_packets_recv = 8, bytes_sent_speed = Fin 0, bytes_recv_speed = Fin 0,
             bytes_sent_speed_mb = Fin 0, bytes_recv_speed_mb = Fin 0, interfaces = []\<rparr>,
            monitor0\<lparr>last_net_io :=
                       \<lparr>bytes_sent = 4097, bytes_recv = 8192, packets_sent = 5, packets_recv = 8\<rparr>,
                     last_time := 11\<rparr>)
   \<and> of_int (uint (4097 :: 64 word) - uint (bytes_sent (last_net_io monitor0)))
         / (11 - last_time monitor0) / 1024
       = (1 / 1024 :: rat)
   \<and> (1 / 1024 :: rat) \<noteq> 0"
  by code_simp

text \<open>
  C4, amended. For every pair of successive readings with elapsed time \<open>time_diff\<close>
  (the float difference of the two clock readings) > 0, each reported disk read/write
  and network send/receive rate is the float quotient (current counter - previous
  counter) / time_diff, divided by 1024 ** 2 (MB/s) or 1024 (KB/s) and then rounded to two
  decimals by \<^verbatim>\<open>round(..., 2)\<close>, and the reported rate is never negative when the current
  counter is greater than or equal to the previous counter.
\<close>

theorem C4_rate_is_rounded_scaled_quotient:
  assumes "float_gt (to_float (current_time - last_time self)) 0"
  shows "\<exists>d n rq rs wq ws sq sk sm cq ck cm.
           get_disk_info self parts current_time cd = Inr (d, self\<lparr>last_disk_io := cd\<rparr>)
         \<and> get_network_info self current_time cn ifs =
             Inr (n, self\<lparr>last_net_io := cn, last_time := current_time\<rparr>)
         \<and> py_truediv (PyInt (uint (read_bytes cd) - uint (read_bytes (last_disk_io self))))
              (PyFloat (to_float (current_time - last_time self))) = Inr rq
         \<and> py_truediv (PyFloat rq) (PyInt (1024 ^ 2)) = Inr rs
         \<and> round_float rs 2 = Inr (read_speed (io d))
         \<and> py_truediv (PyInt (uint (write_bytes cd) - uint (write_bytes (last_disk_io self))))
              (PyFloat (to_float (current_time - last_time self))) = Inr wq
         \<and> py_truediv (PyFloat wq) (PyInt (1024 ^ 2)) = Inr ws
         \<and> round_float ws 2 = Inr (write_speed (io d))
         \<and> py_truediv (PyInt (uint (bytes_sent cn) - uint (bytes_sent (last_net_io self))))
              (PyFloat (to_float (current_time - last_time self))) = Inr sq
         \<and> py_truediv (PyFloat sq) (PyInt 1024) = Inr sk
         \<and> round_float sk 2 = Inr (bytes_sent_speed n)
         \<and> py_truediv (PyFloat sq) (PyInt (1024 ^ 2)) = Inr sm
         \<and> round_float sm 2 = Inr (bytes_sent_speed_mb n)
         \<and> py_truediv (PyInt (uint (bytes_recv cn) - uint (bytes_recv (last_net_io self))))
              (PyFloat (to_float (current_time - last_time self))) = Inr cq
         \<and> py_truediv (PyFloat cq) (PyInt 1024) = Inr ck
         \<and> round_float ck 2 = Inr (bytes_recv_speed n)
         \<and> py_truediv (PyFloat cq) (PyInt (1024 ^ 2)) = Inr cm
         \<and> round_float cm 2 = Inr (bytes_recv_speed_mb n)
         \<and> (read_bytes (last_disk_io self) \<le> read_bytes cd \<longrightarrow> float_ge (read_speed (io d)) 0)
         \<and> (write_bytes (last_disk_io self) \<le> write_bytes cd \<longrightarrow> float_ge (write_speed (io d)) 0)
         \<and> (bytes_sent (last_net_io self) \<le> bytes_sent cn \<longrightarrow>
              float_ge (bytes_sent_speed n) 0 \<and> float_ge (bytes_sent_speed_mb n) 0)
         \<and> (bytes_recv (last_net_io self) \<le> bytes_recv cn \<longrightarrow>
              float_ge (bytes_recv_speed n) 0 \<and> float_ge (bytes_recv_speed_mb n) 0)"
proof -
  obtain d rq rs wq ws where d:
      "get_disk_info self parts current_time cd = Inr (d, self\<lparr>last_disk_io := cd\<rparr>)"
      "py_truediv (PyInt (uint (read_bytes cd) - uint (read_bytes (last_disk_io self))))
              (PyFloat (to_float (current_time - last_time self))) = Inr rq"
      "py_truediv (PyFloat rq) (PyInt (1024 ^ 2)) = Inr rs"
      "round_float rs 2 = Inr (read_speed (io d))"
      "py_truediv (PyInt (uint (write_bytes cd) - uint (write_bytes (last_disk_io self))))
              (PyFloat (to_float (current_time - last_time self))) = Inr wq"
      "py_truediv (PyFloat wq) (PyInt (1024 ^ 2)) = Inr ws"
      "round_float ws 2 = Inr (write_speed (io d))"
      "read_bytes (last_disk_io self) \<le> read_bytes cd \<longrightarrow> float_ge (read_speed (io d)) 0"
      "write_bytes (last_disk_io self) \<le> write_bytes cd \<longrightarrow> float_ge (write_speed (io d)) 0"
    using disk_rates [OF assms, of parts cd] by blast
  obtain n sq sk sm cq ck cm where n:
      "get_network_info self current_time cn ifs =
         Inr (n, self\<lparr>last_net_io := cn, last_time := current_time\<rparr>)"
      "py_truediv (PyInt (uint (bytes_sent cn) - uint (bytes_sent (last_net_io self))))
              (PyFloat (to_float (current_time - last_time self))) = Inr sq"
      "py_truediv (PyFloat sq) (PyInt 1024) = Inr sk"
      "round_float sk 2 = Inr (bytes_sent_speed n)"
      "py_truediv (PyFloat sq) (PyInt (1024 ^ 2)) = Inr sm"
      "round_float sm 2 = Inr (bytes_sent_speed_mb n)"
      "py_truediv (PyInt (uint (bytes_recv cn) - uint (bytes_recv (last_net_io self))))
              (PyFloat (to_float (current_time - last_time self))) = Inr cq"
      "py_truediv (PyFloat cq) (PyInt 1024) = Inr ck"
      "round_float ck 2 = Inr (bytes_recv_speed n)"
      "py_truediv (PyFloat cq) (PyInt (1024 ^ 2)) = Inr cm"
      "round_float cm 2 = Inr (bytes_recv_speed_mb n)"
      "bytes_sent (last_net_io self) \<le> bytes_sent cn \<longrightarrow>
         float_ge (bytes_sent_speed n) 0 \<and> float_ge (bytes_sent_speed_mb n) 0"
      "bytes_recv (last_net_io self) \<le> bytes_recv cn \<longrightarrow>
         float_ge (bytes_recv_speed n) 0 \<and> float_ge (bytes_recv_speed_mb n) 0"
    using network_rates [OF assms, of cn ifs] by blast
  show ?thesis
    using d n by blast
qed

theorem C4_witness:
  "float_gt (to_float (12 - last_time monitor0)) 0
   \<and> read_bytes (last_disk_io monitor0) \<le> read_bytes \<lparr>read_bytes = 6291456, write_bytes = 4194304\<rparr>
   \<and> write_bytes (last_disk_io monitor0) \<le> write_bytes \<lparr>read_bytes = 6291456, write_bytes = 4194304\<rparr>
   \<and> bytes_sent (last_net_io monitor0)
       \<le> bytes_sent \<lparr>bytes_sent = 6144, bytes_recv = 8192, packets_sent = 6, packets_recv = 8\<rparr>
   \<and> bytes_recv (last_net_io monitor0)
       \<le> bytes_recv \<lparr>bytes_sent = 6144, bytes_recv = 8192, packets_sent = 6, packets_recv = 8\<rparr>
   \<and> (\<exists>d n s1 s2.
         get_disk_info monitor0 [] 12 \<lparr>read_bytes = 6291456, write_bytes = 4194304\<rparr> = Inr (d, s1)
       \<and> get_network_info monitor0 12
            \<lparr>bytes_sent = 6144, bytes_recv = 8192, packets_sent = 6, packets_recv = 8\<rparr> []
          = Inr (n, s2)
       \<and> float_ge (read_speed (io d)) 0 \<and> float_ge (write_speed (io d)) 0
       \<and> float_ge (bytes_sent_speed n) 0 \<and> float_ge (bytes_recv_speed n) 0)"
proof -
  have h: "float_gt (to_float (12 - last_time monitor0)) 0"
    by code_simp
  show ?thesis
    using h C4_rate_is_rounded_scaled_quotient [OF h, of "[]"
        "\<lparr>read_bytes = 6291456, write_bytes = 4194304\<rparr>"
        "\<lparr>bytes_sent = 6144, bytes_recv = 8192, packets_sent = 6, packets_recv = 8\<rparr>" "[]"]
    by (auto simp: monitor0_def)
qed

text \<open>
  C10. \<^verbatim>\<open>get_disk_info\<close> overwrites \<open>last_disk_io\<close> and nothing else;
  \<^verbatim>\<open>get_network_info\<close> overwrites \<open>last_net_io\<close> and \<open>last_time\<close> and nothing else. So
  within one full sample both rate computations subtract the same \<open>last_time\<close>, the one
  that the previous \<^verbatim>\<open>get_network_info\<close> call stored: the network dictionary of the sample
  is the one that \<^verbatim>\<open>get_network_info\<close> returns on the monitor as it was before the
  disk call, and in the second of two successive samples the disk dictionary is the one
  computed against the clock reading of the first sample's network call.
\<close>

theorem C10_last_time_written_by_get_network_info_only:
  "(\<exists>d. get_disk_info self parts t1 cd = Inr (d, self\<lparr>last_disk_io := cd\<rparr>))
   \<and> (\<exists>n. get_network_info self t2 cn ifs = Inr (n, self\<lparr>last_net_io := cn, last_time := t2\<rparr>))
   \<and> (\<exists>s d n.
         get_all_resources self r =
           Inr (s, self\<lparr>last_disk_io := r_disk_io r, last_net_io := r_net_io r,
                         last_time := r_net_time r\<rparr>)
       \<and> disk s = Some d \<and> network s = Some n
       \<and> get_disk_info self (r_partitions r) (r_disk_time r) (r_disk_io r) =
           Inr (d, self\<lparr>last_disk_io := r_disk_io r\<rparr>)
       \<and> get_network_info self (r_net_time r) (r_net_io r) (r_interfaces r) =
           Inr (n, self\<lparr>last_net_io := r_net_io r, last_time := r_net_time r\<rparr>))
   \<and> (\<exists>s1 m1 s2 m2 d2.
         get_all_resources self r = Inr (s1, m1)
       \<and> get_all_resources m1 r' = Inr (s2, m2)
       \<and> last_time m1 = r_net_time r
       \<and> last_disk_io m1 = r_disk_io r
       \<and> disk s2 = Some d2
       \<and> get_disk_info
            \<lparr>last_net_io = r_net_io r, last_disk_io = r_disk_io r, last_time = r_net_time r\<rparr>
            (r_partitions r') (r_disk_time r') (r_disk_io r') =
           Inr (d2, \<lparr>last_net_io = r_net_io r, last_disk_io = r_disk_io r',
                      last_time = r_net_time r\<rparr>))"
proof -
  have full: "\<exists>d n. get_all_resources m q =
           Inr (\<lparr>timestamp = r_timestamp q, system = Some (r_system q), cpu = Some (r_cpu q),
                 gpu = Some (r_gpu q), memory = Some (r_memory q), disk = Some d,
                 network = Some n\<rparr>,
                m\<lparr>last_disk_io := r_disk_io q, last_net_io := r_net_io q,
                  last_time := r_net_time q\<rparr>)
         \<and> get_disk_info m (r_partitions q) (r_disk_time q) (r_disk_io q) =
             Inr (d, m\<lparr>last_disk_io := r_disk_io q\<rparr>)
         \<and> get_network_info m (r_net_time q) (r_net_io q) (r_interfaces q) =
             Inr (n, m\<lparr>last_net_io := r_net_io q, last_time := r_net_time q\<rparr>)" for m q
  proof -
    obtain d where d: "get_disk_info m (r_partitions q) (r_disk_time q) (r_disk_io q) =
             Inr (d, m\<lparr>last_disk_io := r_disk_io q\<rparr>)"
      using get_disk_info_returns by blast
    obtain n where n: "get_network_info m (r_net_time q) (r_net_io q) (r_interfaces q) =
             Inr (n, m\<lparr>last_net_io := r_net_io q, last_time := r_net_time q\<rparr>)"
      using get_network_info_returns by blast
    have "get_network_info (m\<lparr>last_disk_io := r_disk_io q\<rparr>) (r_net_time q) (r_net_io q)
            (r_interfaces q) =
          Inr (n, m\<lparr>last_net_io := r_net_io q, last_time := r_net_time q,
                    last_disk_io := r_disk_io q\<rparr>)"
      by (rule get_network_info_frame [OF n])
    then show ?thesis
      using d n by (simp add: get_all_resources_def bind_Inr)
  qed
  obtain d1 n1 where one: "get_all_resources self r =
           Inr (\<lparr>timestamp = r_timestamp r, system = Some (r_system r), cpu = Some (r_cpu r),
                 gpu = Some (r_gpu r), memory = Some (r_memory r), disk = Some d1,
                 network = Some n1\<rparr>,
                self\<lparr>last_disk_io := r_disk_io r, last_net_io := r_net_io r,
                  last_time := r_net_time r\<rparr>)"
      "get_disk_info self (r_partitions r) (r_disk_time r) (r_disk_io r) =
             Inr (d1, self\<lparr>last_disk_io := r_disk_io r\<rparr>)"
      "get_network_info self (r_net_time r) (r_net_io r) (r_interfaces r) =
             Inr (n1, self\<lparr>last_net_io := r_net_io r, last_time := r_net_time r\<rparr>)"
    using full [of self r] by blast
  let ?m1 = "self\<lparr>last_disk_io := r_disk_io r, last_net_io := r_net_io r,
                  last_time := r_net_time r\<rparr>"
  have m1: "?m1 = \<lparr>last_net_io = r_net_io r, last_disk_io = r_disk_io r, last_time = r_net_time r\<rparr>"
    by simp
  obtain d2 n2 where two: "get_all_resources ?m1 r' =
           Inr (\<lparr>timestamp = r_timestamp r', system = Some (r_system r'), cpu = Some (r_cpu r'),
                 gpu = Some (r_gpu r'), memory = Some (r_memory r'), disk = Some d2,
                 network = Some n2\<rparr>,
                ?m1\<lparr>last_disk_io := r_disk_io r', last_net_io := r_net_io r',
                  last_time := r_net_time r'\<rparr>)"
      "get_disk_info ?m1 (r_partitions r') (r_disk_time r') (r_disk_io r') =
             Inr (d2, ?m1\<lparr>last_disk_io := r_disk_io r'\<rparr>)"
    using full [of ?m1 r'] by blast
  have c1: "\<exists>d. get_disk_info self parts t1 cd = Inr (d, self\<lparr>last_disk_io := cd\<rparr>)"
    by (rule get_disk_info_returns)
  have c2: "\<exists>n. get_network_info self t2 cn ifs = Inr (n, self\<lparr>last_net_io := cn, last_time := t2\<rparr>)"
    by (rule get_network_info_returns)
  have c3: "\<exists>s d n.
         get_all_resources self r =
           Inr (s, self\<lparr>last_disk_io := r_disk_io r, last_net_io := r_net_io r,
                         last_time := r_net_time r\<rparr>)
       \<and> disk s = Some d \<and> network s = Some n
       \<and> get_disk_info self (r_partitions r) (r_disk_time r) (r_disk_io r) =
           Inr (d, self\<lparr>last_disk_io := r_disk_io r\<rparr>)
       \<and> get_network_info self (r_net_time r) (r_net_io r) (r_interfaces r) =
           Inr (n, self\<lparr>last_net_io := r_net_io r, last_time := r_net_time r\<rparr>)"
    using one by fastforce
  have c4: "\<exists>s1 m1 s2 m2 d2.
         get_all_resources self r = Inr (s1, m1)
       \<and> get_all_resources m1 r' = Inr (s2, m2)
       \<and> last_time m1 = r_net_time r
       \<and> last_disk_io m1 = r_disk_io r
       \<and> disk s2 = Some d2
       \<and> get_disk_info
            \<lparr>last_net_io = r_net_io r, last_disk_io = r_disk_io r, last_time = r_net_time r\<rparr>
            (r_partitions r') (r_disk_time r') (r_disk_io r') =
           Inr (d2, \<lparr>last_net_io = r_net_io r, last_disk_io = r_disk_io r',
                      last_time = r_net_time r\<rparr>)"
    using one(1) two unfolding m1 by fastforce
  show ?thesis
    using c1 c2 c3 c4 by blast
qed

section \<open>The report builder never raises\<close>

text \<open>
  \<^verbatim>\<open>_calculate_statistics\<close> divides by the length and takes \<^verbatim>\<open>min\<close> and \<^verbatim>\<open>max\<close> only
  of a non-empty list, so it returns on every input, and so does the story built from it.
\<close>

lemma calculate_statistics_Inr:
  "\<exists>s. calculate_statistics xs = Inr s"
  by (cases xs) (simp_all add: calculate_statistics_def truediv_def py_min_def py_max_def bind_Inr)

lemma gpu_story_Inr: "\<exists>g. gpu_story recorded = Inr g \<and> (g = None \<longleftrightarrow> gpu_load recorded = [])"
proof -
  obtain a b c where "calculate_statistics (gpu_load recorded) = Inr a"
     "calculate_statistics (gpu_temp recorded) = Inr b"
     "calculate_statistics (gpu_memory recorded) = Inr c"
    using calculate_statistics_Inr by meson
  then show ?thesis
    by (simp add: gpu_story_def bind_Inr)
qed

lemma build_story_Inr:
  "\<exists>story. build_story recorded start_time end_time = Inr story
     \<and> total_samples story = length recorded
     \<and> gpu_story recorded = Inr (gpu_part story)"
proof -
  obtain a b c d e f where "calculate_statistics (cpu_data recorded) = Inr a"
     "calculate_statistics (memory_data recorded) = Inr b"
     "calculate_statistics (network_sent recorded) = Inr c"
     "calculate_statistics (network_recv recorded) = Inr d"
     "calculate_statistics (disk_read recorded) = Inr e"
     "calculate_statistics (disk_write recorded) = Inr f"
    using calculate_statistics_Inr by meson
  moreover obtain g where "gpu_story recorded = Inr g"
    using gpu_story_Inr by blast
  ultimately show ?thesis
    by (simp add: build_story_def bind_Inr)
qed

section \<open>The GPU series\<close>

lemma map_filter_map_option:
  "List.map_filter (\<lambda>d. map_option f (g d)) xs = map f (List.map_filter g xs)"
  by (induction xs) (simp_all split: option.split)

lemma map_filter_append:
  "List.map_filter f (xs @ ys) = List.map_filter f xs @ List.map_filter f ys"
  by (simp add: List.map_filter_def)

lemma gpu_gate_first:
  "gpu_gate recorded \<longleftrightarrow> recorded \<noteq> [] \<and> (\<exists>g. gpu (recorded ! 0) = Some g \<and> available g)"
  by (cases recorded) (auto simp: gpu_gate_def split: option.splits)

lemma first_gpu_Some:
  "first_gpu d = Some e \<longleftrightarrow> (\<exists>g. gpu d = Some g \<and> gpus g \<noteq> [] \<and> e = gpus g ! 0)"
  by (auto simp: first_gpu_def split: option.splits list.splits)

lemma gpu_series:
  "gpu_load recorded =
     (if gpu_gate recorded then map (\<lambda>e. or_zero (load e)) (List.map_filter first_gpu recorded)
      else [])"
  "gpu_memory recorded =
     (if gpu_gate recorded
      then map (\<lambda>e. or_zero (memory_percent e)) (List.map_filter first_gpu recorded) else [])"
  "gpu_temp recorded =
     (if gpu_gate recorded
      then map (\<lambda>e. or_zero (gpu_temperature e)) (List.map_filter first_gpu recorded) else [])"
  by (simp_all add: gpu_load_def gpu_memory_def gpu_temp_def map_filter_map_option)

lemma gpu_story_stats:
  assumes "gpu_story recorded = Inr (Some g)"
  shows "gpu_chart g = (gpu_load recorded, gpu_memory recorded, gpu_temp recorded)
         \<and> calculate_statistics (gpu_load recorded) = Inr (gpu_load_stats g)
         \<and> calculate_statistics (gpu_memory recorded) = Inr (gpu_mem_stats g)
         \<and> calculate_statistics (gpu_temp recorded) = Inr (gpu_temp_stats g)"
proof -
  obtain a b c where abc: "calculate_statistics (gpu_load recorded) = Inr a"
     "calculate_statistics (gpu_temp recorded) = Inr b"
     "calculate_statistics (gpu_memory recorded) = Inr c"
    using calculate_statistics_Inr by meson
  with assms show ?thesis
    by (auto simp: gpu_story_def bind_Inr split: if_splits)
qed

section \<open>Claims about the report\<close>

text \<open>
  C9. For the empty input list \<^verbatim>\<open>_calculate_statistics\<close> returns the dictionary with
  \<open>avg\<close>, \<open>min\<close> and \<open>max\<close> all 0, and raises nothing.
\<close>

theorem C9_empty_series_gives_zero_statistics:
  "calculate_statistics [] = Inr \<lparr>avg = 0, min_val = 0, max_val = 0\<rparr>"
  by (simp add: calculate_statistics_def)

text \<open>
  C3 as stated fails: of two samples the first has a GPU with no temperature reading and
  the second a GPU at 60 degrees. The temperature series is [0, 60] and its statistic has
  avg 30 and min 0: the sample without a reading is counted as the value zero.
\<close>

theorem C3_counterexample:
  "gpu_temperature gpu_without_temperature = None
   \<and> gpu_story [sample_with_gpu True [gpu_without_temperature],
                sample_with_gpu True [gpu_at_60_degrees]] =
       Inr (Some \<lparr>gpu_chart = ([50, 50], [10, 10], [0, 60]),
                  gpu_load_stats = \<lparr>avg = 50, min_val = 50, max_val = 50\<rparr>,
                  gpu_mem_stats = \<lparr>avg = 10, min_val = 10, max_val = 10\<rparr>,
                  gpu_temp_stats = \<lparr>avg = 30, min_val = 0, max_val = 60\<rparr>\<rparr>)"
  by code_simp

text \<open>
  C3, amended. When the first sample reports GPU availability, a sample that has no GPU
  entry, wherever it stands in the buffer, is excluded from the GPU load, memory and
  temperature series (and so from their statistics), whereas a sample whose first GPU has
  no temperature reading, wherever it stands, stays in the GPU temperature series with
  the value 0, at its place, and that series is the one the temperature statistic is
  computed from. A sample whose CPU temperature is absent likewise contributes 0 to the
  extracted CPU temperature series.
\<close>

theorem C3_no_gpu_excluded_no_temperature_counted_as_zero:
  assumes "gpu_gate (xs @ d # ys)" and "first_gpu d = None"
    and "gpu_gate (us @ d' # vs)" and "first_gpu d' = Some e" and "gpu_temperature e = None"
    and "cpu c = Some ci" and "cpu_temperature ci = None"
  shows "gpu_load (xs @ d # ys) =
           map (\<lambda>e. or_zero (load e)) (List.map_filter first_gpu (xs @ ys))
       \<and> gpu_memory (xs @ d # ys) =
           map (\<lambda>e. or_zero (memory_percent e)) (List.map_filter first_gpu (xs @ ys))
       \<and> gpu_temp (xs @ d # ys) =
           map (\<lambda>e. or_zero (gpu_temperature e)) (List.map_filter first_gpu (xs @ ys))
       \<and> (gpu_gate (xs @ ys) \<longrightarrow>
            gpu_load (xs @ d # ys) = gpu_load (xs @ ys)
          \<and> gpu_memory (xs @ d # ys) = gpu_memory (xs @ ys)
          \<and> gpu_temp (xs @ d # ys) = gpu_temp (xs @ ys))
       \<and> gpu_temp (us @ d' # vs) =
           map (\<lambda>e. or_zero (gpu_temperature e)) (List.map_filter first_gpu us)
           @ 0 # map (\<lambda>e. or_zero (gpu_temperature e)) (List.map_filter first_gpu vs)
       \<and> cpu_temp_data (zs @ c # ws) = cpu_temp_data zs @ 0 # cpu_temp_data ws
       \<and> (\<forall>g. gpu_story (us @ d' # vs) = Inr (Some g) \<longrightarrow>
              calculate_statistics (gpu_temp (us @ d' # vs)) = Inr (gpu_temp_stats g))"
proof -
  have skip: "gpu_load (xs @ d # ys) =
           map (\<lambda>e. or_zero (load e)) (List.map_filter first_gpu (xs @ ys))"
     "gpu_memory (xs @ d # ys) =
           map (\<lambda>e. or_zero (memory_percent e)) (List.map_filter first_gpu (xs @ ys))"
     "gpu_temp (xs @ d # ys) =
           map (\<lambda>e. or_zero (gpu_temperature e)) (List.map_filter first_gpu (xs @ ys))"
    using assms(1,2) by (simp_all add: gpu_series map_filter_append)
  have same: "gpu_load (xs @ d # ys) = gpu_load (xs @ ys)
          \<and> gpu_memory (xs @ d # ys) = gpu_memory (xs @ ys)
          \<and> gpu_temp (xs @ d # ys) = gpu_temp (xs @ ys)" if "gpu_gate (xs @ ys)"
    using skip that by (simp add: gpu_series)
  have zero: "gpu_temp (us @ d' # vs) =
           map (\<lambda>e. or_zero (gpu_temperature e)) (List.map_filter first_gpu us)
           @ 0 # map (\<lambda>e. or_zero (gpu_temperature e)) (List.map_filter first_gpu vs)"
    using assms(3,4,5) by (simp add: gpu_series map_filter_append or_zero_def)
  have cpu0: "cpu_temp_data (zs @ c # ws) = cpu_temp_data zs @ 0 # cpu_temp_data ws"
    using assms(6,7) by (simp add: cpu_temp_data_def map_filter_append or_zero_def)
  show ?thesis
    using skip same zero cpu0 gpu_story_stats by blast
qed

theorem C3_witness:
  "gpu_gate ([] @ sample_with_gpu True [] # [sample_with_gpu True [gpu_at_60_degrees]])
   \<and> first_gpu (sample_with_gpu True []) = None
   \<and> gpu_gate ([] @ sample_with_gpu True [gpu_without_temperature]
                 # [sample_with_gpu True [gpu_at_60_degrees]])
   \<and> first_gpu (sample_with_gpu True [gpu_without_temperature]) = Some gpu_without_temperature
   \<and> gpu_temperature gpu_without_temperature = None
   \<and> cpu (sample_with_gpu True []) = Some \<lparr>cpu_percent = 10, cpu_temperature = None\<rparr>
   \<and> cpu_temperature \<lparr>cpu_percent = 10, cpu_temperature = None\<rparr> = None
   \<and> gpu_gate ([] @ [sample_with_gpu True [gpu_at_60_degrees]])
   \<and> gpu_temp ([] @ sample_with_gpu True [] # [sample_with_gpu True [gpu_at_60_degrees]]) = [60]
   \<and> gpu_temp ([] @ sample_with_gpu True [gpu_without_temperature]
                 # [sample_with_gpu True [gpu_at_60_degrees]]) = [0, 60]
   \<and> cpu_temp_data ([] @ sample_with_gpu True [] # []) = [0]"
proof -
  have h: "gpu_gate ([] @ sample_with_gpu True [] # [sample_with_gpu True [gpu_at_60_degrees]])"
     "first_gpu (sample_with_gpu True []) = None"
     "gpu_gate ([] @ sample_with_gpu True [gpu_without_temperature]
                 # [sample_with_gpu True [gpu_at_60_degrees]])"
     "first_gpu (sample_with_gpu True [gpu_without_temperature]) = Some gpu_without_temperature"
     "gpu_temperature gpu_without_temperature = None"
     "cpu (sample_with_gpu True []) = Some \<lparr>cpu_percent = 10, cpu_temperature = None\<rparr>"
     "cpu_temperature \<lparr>cpu_percent = 10, cpu_temperature = None\<rparr> = None"
    by (simp_all add: gpu_gate_def first_gpu_def sample_with_gpu_def gpu_without_temperature_def)
  have g: "gpu_gate ([] @ [sample_with_gpu True [gpu_at_60_degrees]])"
    by (simp add: gpu_gate_def sample_with_gpu_def)
  have ev: "List.map_filter first_gpu [sample_with_gpu True [gpu_at_60_degrees]] = [gpu_at_60_degrees]"
       "or_zero (gpu_temperature gpu_at_60_degrees) = 60"
       "cpu_temp_data [] = []"
    by (simp_all add: first_gpu_def sample_with_gpu_def gpu_at_60_degrees_def or_zero_def
        cpu_temp_data_def)
  show ?thesis
    using h g ev C3_no_gpu_excluded_no_temperature_counted_as_zero [OF h, of "[]" "[]"]
    by simp
qed

text \<open>
  C8 as stated fails: the second sample reports an available GPU, the first does not,
  and the report has no GPU section.
\<close>

theorem C8_counterexample:
  "gpu (sample_with_gpu True [gpu_at_60_degrees]) = Some \<lparr>available = True, gpus = [gpu_at_60_degrees]\<rparr>
   \<and> gpu_story [sample_with_gpu False [], sample_with_gpu True [gpu_at_60_degrees]] = Inr None"
  by code_simp

text \<open>
  C8, amended. The report has a GPU section exactly when the first sample of the buffer
  reports GPU availability and some sample lists at least one GPU; the section's load,
  memory percent and temperature series and statistics are taken from element 0 of the
  GPU list of each sample that lists one.
\<close>

theorem C8_gpu_section_gated_by_first_sample:
  "\<exists>gs story.
      gpu_story recorded = Inr gs
    \<and> build_story recorded start_time end_time = Inr story
    \<and> gpu_part story = gs
    \<and> (gs \<noteq> None \<longleftrightarrow>
         recorded \<noteq> [] \<and> (\<exists>g. gpu (recorded ! 0) = Some g \<and> available g)
         \<and> (\<exists>d \<in> set recorded. first_gpu d \<noteq> None))
    \<and> (\<forall>g. gs = Some g \<longrightarrow>
           gpu_chart g =
             (map (\<lambda>e. or_zero (load e)) (List.map_filter first_gpu recorded),
              map (\<lambda>e. or_zero (memory_percent e)) (List.map_filter first_gpu recorded),
              map (\<lambda>e. or_zero (gpu_temperature e)) (List.map_filter first_gpu recorded))
         \<and> calculate_statistics (map (\<lambda>e. or_zero (load e)) (List.map_filter first_gpu recorded))
             = Inr (gpu_load_stats g)
         \<and> calculate_statistics
               (map (\<lambda>e. or_zero (memory_percent e)) (List.map_filter first_gpu recorded))
             = Inr (gpu_mem_stats g)
         \<and> calculate_statistics
               (map (\<lambda>e. or_zero (gpu_temperature e)) (List.map_filter first_gpu recorded))
             = Inr (gpu_temp_stats g))
    \<and> (\<forall>d e. first_gpu d = Some e \<longrightarrow>
           (\<exists>g. gpu d = Some g \<and> gpus g \<noteq> [] \<and> e = gpus g ! 0))"
proof -
  obtain story where story: "build_story recorded start_time end_time = Inr story"
      and part: "gpu_story recorded = Inr (gpu_part story)"
    using build_story_Inr by blast
  obtain gs where gs: "gpu_story recorded = Inr gs" and none: "gs = None \<longleftrightarrow> gpu_load recorded = []"
    using gpu_story_Inr by blast
  have same: "gpu_part story = gs"
    using part gs by simp
  have nonempty: "List.map_filter first_gpu recorded \<noteq> [] \<longleftrightarrow> (\<exists>d \<in> set recorded. first_gpu d \<noteq> None)"
    by (auto simp: List.map_filter_def filter_empty_conv)
  have present: "gs \<noteq> None \<longleftrightarrow>
         recorded \<noteq> [] \<and> (\<exists>g. gpu (recorded ! 0) = Some g \<and> available g)
         \<and> (\<exists>d \<in> set recorded. first_gpu d \<noteq> None)"
    using none nonempty by (simp add: gpu_series(1) gpu_gate_first)
  have gate: "gpu_gate recorded" if "gs = Some g" for g
    using that none by (auto simp: gpu_series(1) split: if_splits)
  have stats: "gpu_chart g =
             (map (\<lambda>e. or_zero (load e)) (List.map_filter first_gpu recorded),
              map (\<lambda>e. or_zero (memory_percent e)) (List.map_filter first_gpu recorded),
              map (\<lambda>e. or_zero (gpu_temperature e)) (List.map_filter first_gpu recorded))
         \<and> calculate_statistics (map (\<lambda>e. or_zero (load e)) (List.map_filter first_gpu recorded))
             = Inr (gpu_load_stats g)
         \<and> calculate_statistics
               (map (\<lambda>e. or_zero (memory_percent e)) (List.map_filter first_gpu recorded))
             = Inr (gpu_mem_stats g)
         \<and> calculate_statistics
               (map (\<lambda>e. or_zero (gpu_temperature e)) (List.map_filter first_gpu recorded))
             = Inr (gpu_temp_stats g)" if "gs = Some g" for g
    using gpu_story_stats [of recorded g] gs that gate [OF that]
    by (simp add: gpu_series)
  have first: "\<forall>d e. first_gpu d = Some e \<longrightarrow>
           (\<exists>g. gpu d = Some g \<and> gpus g \<noteq> [] \<and> e = gpus g ! 0)"
    by (simp add: first_gpu_Some)
  show ?thesis
    using story gs same present stats first by blast
qed

theorem C8_witness:
  "\<exists>gs story.
      gpu_story [sample_with_gpu True [gpu_at_60_degrees, gpu_without_temperature],
                 sample_with_gpu False []] = Inr gs
    \<and> build_story [sample_with_gpu True [gpu_at_60_degrees, gpu_without_temperature],
                   sample_with_gpu False []] ''a'' ''b'' = Inr story
    \<and> gpu_part story = gs
    \<and> gs \<noteq> None
    \<and> map_option gpu_chart gs = Some ([50], [10], [60])"
proof -
  have ev: "gpu_story [sample_with_gpu True [gpu_at_60_degrees, gpu_without_temperature],
                 sample_with_gpu False []] =
        Inr (Some \<lparr>gpu_chart = ([50], [10], [60]),
                  gpu_load_stats = \<lparr>avg = 50, min_val = 50, max_val = 50\<rparr>,
                  gpu_mem_stats = \<lparr>avg = 10, min_val = 10, max_val = 10\<rparr>,
                  gpu_temp_stats = \<lparr>avg = 60, min_val = 60, max_val = 60\<rparr>\<rparr>)"
    by code_simp
  show ?thesis
    using ev C8_gpu_section_gated_by_first_sample
       [of "[sample_with_gpu True [gpu_at_60_degrees, gpu_without_temperature],
             sample_with_gpu False []]" "''a''" "''b''"]
    by auto
qed

text \<open>
  C2 as stated fails: \<^verbatim>\<open>PDFReportGenerator.generate_report\<close> on the empty buffer raises
  nothing and builds a report with 0 samples and all-zero statistics.
\<close>

theorem C2_counterexample:
  "length ([] :: rat sample list) < 2
   \<and> PDF_generate_report render_ok [] ''start'' ''end'' =
       Inr \<lparr>report_start = ''start'', report_end = ''end'', total_samples = 0,
            report_system = None, cpu_chart = ([], []),
            cpu_stats = \<lparr>avg = 0, min_val = 0, max_val = 0\<rparr>,
            mem_stats = \<lparr>avg = 0, min_val = 0, max_val = 0\<rparr>, gpu_part = None,
            net_chart = ([], []),
            net_sent_stats = \<lparr>avg = 0, min_val = 0, max_val = 0\<rparr>,
            net_recv_stats = \<lparr>avg = 0, min_val = 0, max_val = 0\<rparr>,
            disk_chart = ([], []),
            disk_read_stats = \<lparr>avg = 0, min_val = 0, max_val = 0\<rparr>,
            disk_write_stats = \<lparr>avg = 0, min_val = 0, max_val = 0\<rparr>,
            partition_rows = None\<rparr>"
  by code_simp

text \<open>
  C2, amended. The route \<^verbatim>\<open>generate_report\<close> answers a buffer of length 0 or 1 with the
  error `Not enough data to generate report' (status 400) and calls no generator. This
  length test is in the route only: \<^verbatim>\<open>PDFReportGenerator.generate_report\<close> has none and,
  when the rendering libraries do not fail, builds a report from a buffer of any length.
\<close>

theorem C2_length_check_is_in_the_route_only:
  "(length (recorded_data g) < 2 \<longrightarrow>
      generate_report render g report_path = Bad_request ''Not enough data to generate report'')
   \<and> (\<exists>story. PDF_generate_report render_ok recorded start_time end_time = Inr story
              \<and> total_samples story = length recorded)"
proof -
  obtain story where "build_story recorded start_time end_time = Inr story"
      "total_samples story = length recorded"
    using build_story_Inr by blast
  then show ?thesis
    by (simp add: generate_report_def PDF_generate_report_def render_ok_def bind_Inr)
qed

theorem C2_witness:
  "length (recorded_data busy_app) < 2
   \<and> generate_report render_ok busy_app ''report.pdf'' =
       Bad_request ''Not enough data to generate report''
   \<and> (\<exists>story. PDF_generate_report render_ok (recorded_data busy_app) ''start'' ''end'' = Inr story
              \<and> total_samples story = 1)"
proof -
  have h: "length (recorded_data busy_app) < 2"
    by (simp add: busy_app_def)
  have n: "length (recorded_data busy_app) = 1"
    by (simp add: busy_app_def)
  show ?thesis
    using h C2_length_check_is_in_the_route_only
      [of busy_app render_ok "''report.pdf''" "recorded_data busy_app" "''start''" "''end''"]
    unfolding n by simp
qed

section \<open>Claims about the recording session\<close>

text \<open>
  C6. \<^verbatim>\<open>start_recording\<close> called while a session is recording answers
  \<open>already_recording\<close> and leaves every global unchanged; in particular the buffer has the
  same length before and after.
\<close>

theorem C6_start_while_recording_changes_nothing:
  assumes "recording g"
  shows "start_recording g now = (Already_recording, g)
         \<and> length (recorded_data (snd (start_recording g now))) = length (recorded_data g)"
  using assms by (simp add: start_recording_def)

theorem C6_witness:
  "recording busy_app
   \<and> start_recording busy_app 20 = (Already_recording, busy_app)
   \<and> length (recorded_data (snd (start_recording busy_app 20))) = 1"
proof -
  have h: "recording busy_app"
    by (simp add: busy_app_def)
  have n: "length (recorded_data busy_app) = 1"
    by (simp add: busy_app_def)
  show ?thesis
    using h n C6_start_while_recording_changes_nothing [OF h, of 20] by simp
qed

section \<open>The recording worker\<close>

text \<open>
  The loop leaves at the first evaluation of its condition that does not find the elapsed
  time below the duration, having appended the samples of all earlier rounds.
\<close>

lemma recording_loop_exit:
  assumes "recording g" and "k \<le> n"
    and "\<forall>j. k \<le> j \<and> j < n \<longrightarrow>
           float_lt (to_float (clock j - start)) (of_int RECORDING_DURATION)"
    and "\<not> float_lt (to_float (clock n - start)) (of_int RECORDING_DURATION)"
  shows "recording_loop clock samples start k g =
           Some (g\<lparr>recorded_data := recorded_data g @ List.map_filter samples [k..<n],
                   recording := False\<rparr>)"
  using assms
proof (induction "n - k" arbitrary: k g)
  case 0
  then have "k = n" by simp
  with 0 show ?case
    by (subst recording_loop.simps) simp
next
  case (Suc m)
  then have lt: "k < n" by simp
  then have go: "float_lt (to_float (clock k - start)) (of_int RECORDING_DURATION)"
    using Suc.prems by simp
  let ?g = "case samples k of Some d \<Rightarrow> g\<lparr>recorded_data := recorded_data g @ [d]\<rparr> | None \<Rightarrow> g"
  have rec: "recording ?g"
    using Suc.prems(1) by (simp split: option.split)
  have ih: "recording_loop clock samples start (Suc k) ?g =
           Some (?g\<lparr>recorded_data := recorded_data ?g @ List.map_filter samples [Suc k..<n],
                    recording := False\<rparr>)"
    using Suc.hyps(2) lt Suc.prems(3,4) by (intro Suc.hyps(1) rec) auto
  have "recording_loop clock samples start k g = recording_loop clock samples start (Suc k) ?g"
    using Suc.prems(1) go by (subst recording_loop.simps) simp
  also have "\<dots> = Some (g\<lparr>recorded_data := recorded_data g @ List.map_filter samples [k..<n],
                   recording := False\<rparr>)"
    using lt by (simp add: ih upt_conv_Cons split: option.split)
  finally show ?case .
qed

text \<open>
  C5. A recording session to which no stop is sent ends by itself once the duration limit
  of 300 seconds has elapsed since the worker's start: if some evaluation of the loop
  condition reads a clock at least \<open>RECORDING_DURATION\<close> = 300 seconds after the start,
  \<^verbatim>\<open>recording_worker\<close> returns, no later than at the first such evaluation (at the
  first one whose float difference \<^verbatim>\<open>time.time() - start\<close> is not below 300; before
  it, less than 300 seconds had elapsed), and it leaves the flag \<open>recording\<close> false, with
  the samples of the earlier rounds appended to the buffer.
\<close>

theorem C5_recording_stops_after_duration:
  assumes "recording g"
    and "\<exists>m\<ge>1. of_int RECORDING_DURATION \<le> clock m - clock 0"
  shows "\<exists>n\<ge>1. recording_worker clock samples g =
               Some (g\<lparr>recorded_data := recorded_data g @ List.map_filter samples [1..<n],
                       recording := False\<rparr>)
           \<and> \<not> float_lt (to_float (clock n - clock 0)) (of_int RECORDING_DURATION)
           \<and> (\<forall>k. 1 \<le> k \<and> k < n \<longrightarrow> clock k - clock 0 < of_int RECORDING_DURATION)
           \<and> (\<forall>m\<ge>1. of_int RECORDING_DURATION \<le> clock m - clock 0 \<longrightarrow> n \<le> m)"
proof -
  define P where "P k \<longleftrightarrow> 1 \<le> k \<and> \<not> float_lt (to_float (clock k - clock 0)) 300" for k
  have expired: "P m" if "1 \<le> m" "of_int RECORDING_DURATION \<le> clock m - clock 0" for m
    using that to_float_ge_300 [of "clock m - clock 0"]
    by (simp add: P_def RECORDING_DURATION_def)
  then have ex: "\<exists>k. P k" using assms(2) by blast
  define n where "n = (LEAST k. P k)"
  have n: "P n"
    unfolding n_def using ex by (rule LeastI_ex)
  have before: "\<not> P k" if "k < n" for k
    using that unfolding n_def by (rule not_less_Least)
  have least: "n \<le> m" if "P m" for m
    unfolding n_def using that by (rule Least_le)
  have below: "float_lt (to_float (clock k - clock 0)) 300" if "1 \<le> k" "k < n" for k
    using before [OF that(2)] that(1) by (simp add: P_def)
  have "recording_worker clock samples g =
               Some (g\<lparr>recorded_data := recorded_data g @ List.map_filter samples [1..<n],
                       recording := False\<rparr>)"
    unfolding recording_worker_def
    using assms(1) n below
    by (intro recording_loop_exit) (auto simp: P_def RECORDING_DURATION_def)
  moreover have "clock k - clock 0 < of_int RECORDING_DURATION" if "1 \<le> k" "k < n" for k
    using to_float_lt_300 [OF below [OF that]] by (simp add: RECORDING_DURATION_def)
  ultimately show ?thesis
    using n expired least by (auto simp: P_def RECORDING_DURATION_def)
qed

theorem C5_witness:
  "recording busy_app
   \<and> (\<exists>m\<ge>1. of_int RECORDING_DURATION \<le> steady_clock m - steady_clock 0)
   \<and> (\<exists>g'. recording_worker steady_clock steady_samples busy_app = Some g'
           \<and> \<not> recording g' \<and> length (recorded_data g') \<le> 300)"
proof -
  have h: "recording busy_app"
    by (simp add: busy_app_def)
  have late: "1 \<le> (300::nat)"
       "of_int RECORDING_DURATION \<le> steady_clock 300 - steady_clock 0"
    by (simp_all add: steady_clock_def RECORDING_DURATION_def)
  then have ex: "\<exists>m\<ge>1. of_int RECORDING_DURATION \<le> steady_clock m - steady_clock 0"
    by blast
  obtain n where n: "1 \<le> n"
      "recording_worker steady_clock steady_samples busy_app =
         Some (busy_app\<lparr>recorded_data := recorded_data busy_app
                                               @ List.map_filter steady_samples [1..<n],
                         recording := False\<rparr>)"
      "\<forall>m\<ge>1. of_int RECORDING_DURATION \<le> steady_clock m - steady_clock 0 \<longrightarrow> n \<le> m"
    using C5_recording_stops_after_duration [OF h ex, of steady_samples] by blast
  have "n \<le> 300"
    using n(3) late by blast
  moreover have "length (List.map_filter steady_samples xs) = length xs" for xs
    by (induction xs) (simp_all add: steady_samples_def)
  ultimately show ?thesis
    using h ex n(1,2) by (simp add: busy_app_def)
qed

end
